theory Spec2Isabelle
  imports Complex_Main "HOL-Library.Word"
begin

unbundle bit_operations_syntax

section \<open>Frame codec (pzem_handler.py)\<close>

text \<open>
  A Python \<open>bytes\<close>/\<open>bytearray\<close> object is a list of 8-bit values; Python integers are
  unbounded and are modelled as \<open>int\<close>; Python floats are modelled as exact reals.
\<close>

type_synonym byte = "8 word"

text \<open>One turn of the inner loop of \<open>crc16_modbus\<close> (\<open>for _ in range(8)\<close>).\<close>

definition crc_shift :: "int \<Rightarrow> int" where
  "crc_shift crc =
     (if crc AND 0x0001 \<noteq> 0 then drop_bit 1 crc XOR 0xA001 else drop_bit 1 crc)"

fun crc_bits :: "nat \<Rightarrow> int \<Rightarrow> int" where
  "crc_bits 0 crc = crc"
| "crc_bits (Suc n) crc = crc_bits n (crc_shift crc)"

text \<open>One turn of the outer loop: \<open>crc ^= byte\<close>, then eight shifts.\<close>

definition crc_byte :: "int \<Rightarrow> byte \<Rightarrow> int" where
  "crc_byte crc b = crc_bits 8 (crc XOR uint b)"

definition crc16_modbus :: "byte list \<Rightarrow> int" where
  "crc16_modbus data = foldl crc_byte 0xFFFF data"

text \<open>\<open>crc & 0xFF\<close> and \<open>(crc >> 8) & 0xFF\<close>, as appended to a bytearray.\<close>

definition crc_lo :: "int \<Rightarrow> byte" where
  "crc_lo crc = word_of_int (crc AND 0xFF)"

definition crc_hi :: "int \<Rightarrow> byte" where
  "crc_hi crc = word_of_int (drop_bit 8 crc AND 0xFF)"



subsection \<open>Decoding a response: \<open>read_response\<close>\<close>

text \<open>
  The dictionary built by \<open>read_response\<close>. The key \<open>energy\<close> first holds the
  device's own counter in Wh and is overwritten with the accumulated kWh by
  \<open>read_tenant_a\<close>/\<open>read_tenant_b\<close>, which also add \<open>daily_energy\<close> and \<open>daily_cost\<close>.
\<close>

record reading =
  voltage :: real
  current :: real
  power :: real
  energy :: real
  frequency :: real
  power_factor :: real
  timestamp :: int

record tenant_data = reading +
  daily_energy :: real
  daily_cost :: real

text \<open>
  \<open>read_response\<close> returns \<open>None\<close> on every rejected frame, after printing a message
  that tells the cause; the error value names the branch that was taken.
\<close>

datatype frame_error =
    Incomplete
  | AddressMismatch
  | DeviceException byte
  | FunctionMismatch
  | LengthMismatch
  | CrcMismatch

text \<open>\<open>struct.unpack('>H', data_bytes[i:i+2])[0]\<close>: a big-endian 16-bit register.\<close>

definition unpack_be16 :: "byte list \<Rightarrow> nat \<Rightarrow> int" where
  "unpack_be16 data_bytes i = 256 * uint (data_bytes ! i) + uint (data_bytes ! (i + 1))"

text \<open>
  The body of the \<open>try\<close> block, on the slice \<open>response[3:23]\<close>. The response has at
  least 25 bytes here, so the slice has 20 and no index is out of range: the
  \<open>except\<close> branch cannot be reached.
\<close>

definition parse_data :: "byte list \<Rightarrow> int \<Rightarrow> reading" where
  "parse_data data_bytes now =
     (let registers = map (\<lambda>k. unpack_be16 data_bytes (2 * k)) [0..<10];
          voltage = real_of_int (registers ! 0) / 10;
          current_raw = push_bit 16 (registers ! 2) OR registers ! 1;
          current = real_of_int current_raw / 1000;
          power_raw = push_bit 16 (registers ! 4) OR registers ! 3;
          power = real_of_int power_raw / 10;
          energy_raw = push_bit 16 (registers ! 6) OR registers ! 5;
          frequency = real_of_int (registers ! 7) / 10;
          power_factor_raw = real_of_int (registers ! 8) / 100;
          power_factor =
            (if current = 0 \<or> power = 0 then 0 else min (max power_factor_raw 0) 1)
      in \<lparr>voltage = voltage, current = current, power = power,
          energy = real_of_int energy_raw, frequency = frequency,
          power_factor = power_factor, timestamp = now\<rparr>)"

text \<open>
  \<open>read_response\<close> on the bytes collected by its receive loop (the loop stops as
  soon as at least 25 bytes are there, or at the timeout, so any length can occur);
  \<open>now\<close> is the clock read for the time stamp. \<open>response[:-2]\<close>, \<open>response[-2]\<close> and
  \<open>response[-1]\<close> count from the end of what was collected.
\<close>

definition read_response :: "byte list \<Rightarrow> byte \<Rightarrow> int \<Rightarrow> frame_error + reading" where
  "read_response response address now =
     (if length response < 25 then Inl Incomplete
      else if response ! 0 \<noteq> address then Inl AddressMismatch
      else if response ! 1 \<noteq> 0x04 then
        (if response ! 1 = 0x84 then Inl (DeviceException (response ! 2))
         else Inl FunctionMismatch)
      else if response ! 2 \<noteq> 20 then Inl LengthMismatch
      else
        (let data_for_crc = take (length response - 2) response;
             calculated_crc = crc16_modbus data_for_crc;
             received_crc = uint (response ! (length response - 2))
                            OR push_bit 8 (uint (response ! (length response - 1)))
         in if calculated_crc \<noteq> received_crc then Inl CrcMismatch
            else Inr (parse_data (take 20 (drop 3 response)) now)))"

section \<open>Metering (pzem_handler.py)\<close>

text \<open>The attributes of \<open>PZEMHandler\<close> that \<open>__init__\<close> sets, the UARTs apart.\<close>

record pzem_handler =
  address_a :: byte
  address_b :: byte
  energy_a :: real
  energy_b :: real
  daily_energy_a :: real
  daily_energy_b :: real
  last_reading_a :: int
  last_reading_b :: int

definition new_handler :: pzem_handler where
  "new_handler = \<lparr>address_a = 0x01, address_b = 0x02, energy_a = 0, energy_b = 0,
     daily_energy_a = 0, daily_energy_b = 0, last_reading_a = 0, last_reading_b = 0\<rparr>"

definition ENERGY_RATE_GHS :: real where
  "ENERGY_RATE_GHS = 1824 / 1000"

text \<open>
  What one poll gets from outside: the bytes the UART delivered to the receive loop
  (or an exception raised by the UART calls), the clock read by \<open>read_response\<close> for
  the time stamp, and the clock read by \<open>read_tenant_a\<close>/\<open>read_tenant_b\<close> afterwards.
\<close>

datatype uart_result = UartError | Collected "byte list"

record poll =
  rx :: uart_result
  stamp :: int
  clock :: int

text \<open>The dictionary of zeros returned when there is no data or an exception.\<close>

definition zero_data :: "real \<Rightarrow> real \<Rightarrow> int \<Rightarrow> tenant_data" where
  "zero_data e d now =
     \<lparr>voltage = 0, current = 0, power = 0, energy = e, frequency = 0, power_factor = 0,
      timestamp = now, daily_energy = d, daily_cost = d * ENERGY_RATE_GHS\<rparr>"

definition read_tenant_a :: "pzem_handler \<Rightarrow> poll \<Rightarrow> tenant_data \<times> pzem_handler" where
  "read_tenant_a h p =
     (case rx p of
        UartError \<Rightarrow> (zero_data (energy_a h) (daily_energy_a h) (clock p), h)
      | Collected response \<Rightarrow>
          (case read_response response (address_a h) (stamp p) of
             Inr data \<Rightarrow>
               (let current_time = clock p;
                    h1 = (if last_reading_a h > 0 then
                            (let time_diff = current_time - last_reading_a h
                             in if 0 < time_diff \<and> time_diff \<le> 10 then
                                  (let energy_increment =
                                         (power data * real_of_int time_diff) / 3600 / 1000
                                   in h\<lparr>energy_a := energy_a h + energy_increment,
                                        daily_energy_a := daily_energy_a h + energy_increment\<rparr>)
                                else h)
                          else h);
                    h2 = h1\<lparr>last_reading_a := current_time\<rparr>
                in (\<lparr>voltage = voltage data, current = current data, power = power data,
                     energy = energy_a h2, frequency = frequency data,
                     power_factor = power_factor data, timestamp = timestamp data,
                     daily_energy = daily_energy_a h2,
                     daily_cost = daily_energy_a h2 * ENERGY_RATE_GHS\<rparr>, h2))
           | Inl e \<Rightarrow> (zero_data (energy_a h) (daily_energy_a h) (clock p), h)))"

definition read_tenant_b :: "pzem_handler \<Rightarrow> poll \<Rightarrow> tenant_data \<times> pzem_handler" where
  "read_tenant_b h p =
     (case rx p of
        UartError \<Rightarrow> (zero_data (energy_b h) (daily_energy_b h) (clock p), h)
      | Collected response \<Rightarrow>
          (case read_response response (address_b h) (stamp p) of
             Inr data \<Rightarrow>
               (let current_time = clock p;
                    h1 = (if last_reading_b h > 0 then
                            (let time_diff = current_time - last_reading_b h
                             in if 0 < time_diff \<and> time_diff \<le> 10 then
                                  (let energy_increment =
                                         (power data * real_of_int time_diff) / 3600 / 1000
                                   in h\<lparr>energy_b := energy_b h + energy_increment,
                                        daily_energy_b := daily_energy_b h + energy_increment\<rparr>)
                                else h)
                          else h);
                    h2 = h1\<lparr>last_reading_b := current_time\<rparr>
                in (\<lparr>voltage = voltage data, current = current data, power = power data,
                     energy = energy_b h2, frequency = frequency data,
                     power_factor = power_factor data, timestamp = timestamp data,
                     daily_energy = daily_energy_b h2,
                     daily_cost = daily_energy_b h2 * ENERGY_RATE_GHS\<rparr>, h2))
           | Inl e \<Rightarrow> (zero_data (energy_b h) (daily_energy_b h) (clock p), h)))"

definition reset_daily_counters :: "pzem_handler \<Rightarrow> pzem_handler" where
  "reset_daily_counters h = h\<lparr>daily_energy_a := 0, daily_energy_b := 0\<rparr>"

section \<open>Validation and scheduling (main.py)\<close>

subsection \<open>\<open>_validate_data\<close>\<close>

text \<open>
  \<open>_validate_data\<close> returns a flag and a message; the reason names the check that
  produced the message. A record has all the fields, so the check for a missing
  field has no counterpart; \<open>None\<close> is the case \<open>not data\<close>.
\<close>

datatype validation_reason =
    NoData
  | VoltageRange
  | CurrentRange
  | PowerRange
  | FrequencyRange
  | PowerFactorRange
  | PowerCrossCheck

datatype validation = Valid | Invalid validation_reason

datatype tenant = TenantA | TenantB

definition validate_data :: "tenant_data option \<Rightarrow> tenant \<Rightarrow> validation" where
  "validate_data d tenant_id =
     (case d of
        None \<Rightarrow> Invalid NoData
      | Some data \<Rightarrow>
          (let voltage = voltage data; current = current data; power = power data;
               frequency = frequency data; power_factor = power_factor data
           in if voltage > 0 \<and> (voltage < 180 \<or> voltage > 280) then Invalid VoltageRange
              else if current < 0 \<or> current > 100 then Invalid CurrentRange
              else if power < 0 \<or> power > 25000 then Invalid PowerRange
              else if frequency > 0 \<and> (frequency < 45 \<or> frequency > 65)
                then Invalid FrequencyRange
              else if power_factor < 0 \<or> power_factor > 1 then Invalid PowerFactorRange
              else if voltage > 10 \<and> current > 1 / 100 then
                (let calculated_power = voltage * current * power_factor;
                     power_diff = \<bar>power - calculated_power\<bar>
                 in if power_diff > calculated_power * (1 / 10) then Invalid PowerCrossCheck
                    else Valid)
              else Valid))"

subsection \<open>The state of \<open>PZEMTestMonitor\<close>\<close>

record tenant_stats =
  success :: int
  error :: int
  timeout :: int
  invalid :: int

text \<open>
  The dictionaries keyed by \<open>'a'\<close> and \<open>'b'\<close> are functions of the tenant. The fields
  that only feed the printed statistics (timing lists, start time, time of the last
  statistics and garbage collection) are left out. \<open>cycle_time\<close> is the local variable
  of \<open>run\<close>, \<open>None\<close> as long as it is unbound.
\<close>

record monitor =
  running :: bool
  pzem :: "pzem_handler option"
  last_reading :: int
  read_count :: int
  stats :: "tenant \<Rightarrow> tenant_stats"
  last_valid_data :: "tenant \<Rightarrow> tenant_data option"
  consecutive_errors :: "tenant \<Rightarrow> int"
  max_consecutive_errors :: int
  last_daily_reset :: int
  test_mode :: bool
  cycle_time :: "int option"

text \<open>The attributes as \<open>__init__\<close> sets them before it calls \<open>_initialize_pzem\<close>.\<close>

definition init_monitor :: monitor where
  "init_monitor =
     \<lparr>running = True, pzem = None, last_reading = 0, read_count = 0,
      stats = (\<lambda>t. \<lparr>success = 0, error = 0, timeout = 0, invalid = 0\<rparr>),
      last_valid_data = (\<lambda>t. None), consecutive_errors = (\<lambda>t. 0),
      max_consecutive_errors = 10, last_daily_reset = 0, test_mode = False,
      cycle_time = None\<rparr>"

text \<open>What the loop prints and does towards the outside, as far as the claims need it.\<close>

datatype event =
    Restarting
  | ChannelsClosed
  | Sleep int
  | InitFailed
  | CountersReset

datatype result_type = Success | Error | Timeout | InvalidData

definition SENSOR_READ_INTERVAL :: int where
  "SENSOR_READ_INTERVAL = 1"

subsection \<open>\<open>_initialize_pzem\<close> and \<open>_restart_pzem_handler\<close>\<close>

text \<open>
  One attempt to build a handler: the constructor raises, or it returns and the
  connectivity test polls both meters.
\<close>

datatype init_attempt = CtorRaised | Constructed poll poll

definition test_connectivity ::
  "pzem_handler option \<Rightarrow> poll \<Rightarrow> poll \<Rightarrow> bool \<times> pzem_handler option" where
  "test_connectivity pz pa pb =
     (case pz of
        None \<Rightarrow> (False, None)
      | Some h \<Rightarrow>
          (let (data_a, h1) = read_tenant_a h pa;
               (data_b, h2) = read_tenant_b h1 pb
           in (Some data_a \<noteq> None \<and> Some data_b \<noteq> None, Some h2)))"

text \<open>
  \<open>if self.pzem: self.pzem.close()\<close>: \<open>close\<close> releases both UARTs of the handler that
  \<open>self.pzem\<close> refers to; the handler's attributes stay as they are.
\<close>

definition close_handler :: "monitor \<Rightarrow> event list" where
  "close_handler m = (case pzem m of None \<Rightarrow> [] | Some h \<Rightarrow> [ChannelsClosed])"

text \<open>
  The body of the \<open>try\<close> in the loop with its \<open>except\<close> branch; the flag says that the
  function returns. When the constructor raises, \<open>self.pzem\<close> still is what it was
  before, and is closed before it is set to \<open>None\<close>.
\<close>

definition try_initialize :: "init_attempt \<Rightarrow> monitor \<Rightarrow> bool \<times> monitor \<times> event list" where
  "try_initialize att m =
     (case att of
        CtorRaised \<Rightarrow> (False, m\<lparr>pzem := None\<rparr>, close_handler m)
      | Constructed pa pb \<Rightarrow>
          (let m1 = m\<lparr>pzem := Some new_handler\<rparr>;
               (ok, pz) = test_connectivity (pzem m1) pa pb;
               m2 = m1\<lparr>pzem := pz\<rparr>
           in if ok then (True, m2, [])
              else (False, m2\<lparr>pzem := None\<rparr>, close_handler m2)))"

text \<open>
  The loop \<open>for attempt in range(max_retries)\<close>: the first argument counts the turns
  that are left, \<open>attempt\<close> is the loop variable.
\<close>

fun initialize_attempts ::
  "nat \<Rightarrow> nat \<Rightarrow> int \<Rightarrow> (nat \<Rightarrow> init_attempt) \<Rightarrow> monitor \<Rightarrow> monitor \<times> event list" where
  "initialize_attempts 0 attempt retry_delay inits m = (m\<lparr>running := False\<rparr>, [InitFailed])"
| "initialize_attempts (Suc k) attempt retry_delay inits m =
     (case try_initialize (inits attempt) m of
        (True, m1, ev1) \<Rightarrow> (m1, ev1)
      | (False, m1, ev1) \<Rightarrow>
          (if int attempt < 3 - 1 then
             (case initialize_attempts k (Suc attempt) (retry_delay * 2) inits m1 of
                (m2, ev) \<Rightarrow> (m2, ev1 @ Sleep retry_delay # ev))
           else
             (case initialize_attempts k (Suc attempt) retry_delay inits m1 of
                (m2, ev) \<Rightarrow> (m2, ev1 @ ev))))"

definition initialize_pzem :: "(nat \<Rightarrow> init_attempt) \<Rightarrow> monitor \<Rightarrow> monitor \<times> event list" where
  "initialize_pzem inits m = initialize_attempts 3 0 2 inits m"

definition should_restart_handler :: "monitor \<Rightarrow> tenant \<Rightarrow> bool" where
  "should_restart_handler m tenant = (consecutive_errors m tenant \<ge> max_consecutive_errors m)"

definition restart_pzem_handler ::
  "(nat \<Rightarrow> init_attempt) \<Rightarrow> monitor \<Rightarrow> monitor \<times> event list" where
  "restart_pzem_handler inits m =
     (case initialize_pzem inits (m\<lparr>consecutive_errors := (\<lambda>t. 0)\<rparr>) of
        (m1, ev) \<Rightarrow> (m1, Restarting # close_handler m @ ev))"

subsection \<open>\<open>_read_tenant_data\<close>\<close>

definition update_stats :: "tenant \<Rightarrow> result_type \<Rightarrow> monitor \<Rightarrow> monitor" where
  "update_stats tenant result_type m =
     (let s = stats m tenant;
          s1 = (case result_type of
                  Success \<Rightarrow> s\<lparr>success := success s + 1\<rparr>
                | Error \<Rightarrow> s\<lparr>error := error s + 1\<rparr>
                | Timeout \<Rightarrow> s\<lparr>timeout := timeout s + 1\<rparr>
                | InvalidData \<Rightarrow> s\<lparr>invalid := invalid s + 1\<rparr>)
      in m\<lparr>stats := (stats m)(tenant := s1)\<rparr>)"

text \<open>
  The call \<open>self.pzem.read_tenant_a()\<close> or \<open>read_tenant_b()\<close>: it raises when there is
  no handler, and returns a dictionary otherwise.
\<close>

datatype 'a call = Raised | Returned 'a

definition call_read ::
  "tenant \<Rightarrow> poll \<Rightarrow> monitor \<Rightarrow> tenant_data option call \<times> monitor" where
  "call_read tenant_id p m =
     (case pzem m of
        None \<Rightarrow> (Raised, m)
      | Some h \<Rightarrow>
          (case (if tenant_id = TenantA then read_tenant_a h p else read_tenant_b h p) of
             (data, h1) \<Rightarrow> (Returned (Some data), m\<lparr>pzem := Some h1\<rparr>)))"

text \<open>What \<open>_read_tenant_data\<close> does with the outcome of the call.\<close>

definition record_read ::
  "tenant \<Rightarrow> tenant_data option call \<Rightarrow> monitor
     \<Rightarrow> (tenant_data option \<times> result_type) \<times> monitor" where
  "record_read tenant res m =
     (case res of
        Raised \<Rightarrow>
          (let m1 = update_stats tenant Error m
           in ((None, Error),
               m1\<lparr>consecutive_errors :=
                     (consecutive_errors m1)(tenant := consecutive_errors m1 tenant + 1)\<rparr>))
      | Returned None \<Rightarrow>
          (let m1 = update_stats tenant Timeout m
           in ((None, Timeout),
               m1\<lparr>consecutive_errors :=
                     (consecutive_errors m1)(tenant := consecutive_errors m1 tenant + 1)\<rparr>))
      | Returned (Some data) \<Rightarrow>
          (case validate_data (Some data) tenant of
             Valid \<Rightarrow>
               (let m1 = update_stats tenant Success m
                in ((Some data, Success),
                    m1\<lparr>consecutive_errors := (consecutive_errors m1)(tenant := 0),
                        last_valid_data := (last_valid_data m1)(tenant := Some data)\<rparr>))
           | Invalid reason \<Rightarrow>
               (let m1 = update_stats tenant InvalidData m
                in ((Some data, InvalidData),
                    m1\<lparr>consecutive_errors :=
                          (consecutive_errors m1)(tenant := consecutive_errors m1 tenant + 1)\<rparr>))))"

definition read_tenant_data ::
  "tenant \<Rightarrow> poll \<Rightarrow> monitor \<Rightarrow> (tenant_data option \<times> result_type) \<times> monitor" where
  "read_tenant_data tenant_id p m =
     (case call_read tenant_id p m of (res, m1) \<Rightarrow> record_read tenant_id res m1)"

subsection \<open>One turn of the loop of \<open>run\<close>\<close>

text \<open>
  What one turn of the loop gets from outside: the clock at its start, the outcomes
  of the attempts to build a handler should it restart, the two polls, the duration
  measured after the polls, and the clock and local time read by
  \<open>_should_reset_daily_counters\<close> (fields 3 and 4 of \<open>utime.localtime\<close>).
\<close>

record tick =
  current_time :: int
  inits :: "nat \<Rightarrow> init_attempt"
  poll_a :: poll
  poll_b :: poll
  cycle_ms :: int
  reset_time :: int
  reset_hour :: int
  reset_minute :: int

definition should_reset_daily_counters :: "monitor \<Rightarrow> tick \<Rightarrow> bool" where
  "should_reset_daily_counters m e =
     (let current_time = reset_time e;
          current_hour = reset_hour e;
          current_minute = reset_minute e
      in if current_hour = 0 \<and> current_minute < 5 then
           (if current_time - last_daily_reset m > 6 * 3600 then True else False)
         else False)"

text \<open>
  The block under \<open>if current_time - self.last_reading >= SENSOR_READ_INTERVAL\<close>;
  the flag says that the loop was left by \<open>break\<close>.
\<close>

definition readings :: "tick \<Rightarrow> monitor \<Rightarrow> bool \<times> monitor \<times> event list" where
  "readings e m =
     (if current_time e - last_reading m \<ge> SENSOR_READ_INTERVAL then
        (let m1 = m\<lparr>read_count := read_count m + 1\<rparr>;
             (brk, m2, ev) =
               (if should_restart_handler m1 TenantA \<or> should_restart_handler m1 TenantB
                then (case restart_pzem_handler (inits e) m1 of
                        (m2, ev) \<Rightarrow> (\<not> running m2, m2, ev))
                else (False, m1, []))
         in if brk then (True, m2, ev)
            else
              (let (ra, m3) = read_tenant_data TenantA (poll_a e) m2;
                   (rb, m4) = read_tenant_data TenantB (poll_b e) m3
               in (False, m4\<lparr>last_reading := current_time e,
                              cycle_time := Some (cycle_ms e)\<rparr>, ev)))
      else (False, m, []))"

text \<open>
  A call of \<open>self.pzem.reset_daily_counters()\<close> inside \<open>try\<close>: without a handler it
  raises, and the handler of the exception only prints.
\<close>

definition call_reset :: "monitor \<Rightarrow> (monitor \<times> event list) call" where
  "call_reset m =
     (case pzem m of
        None \<Rightarrow> Raised
      | Some h \<Rightarrow> Returned (m\<lparr>pzem := Some (reset_daily_counters h)\<rparr>, [CountersReset]))"

definition daily_reset :: "tick \<Rightarrow> monitor \<Rightarrow> monitor \<times> event list" where
  "daily_reset e m =
     (if should_reset_daily_counters m e then
        (case call_reset m of
           Raised \<Rightarrow> (m, [])
         | Returned (m1, ev) \<Rightarrow> (m1\<lparr>last_daily_reset := current_time e\<rparr>, ev))
      else (m, []))"

definition test_mode_reset :: "monitor \<Rightarrow> monitor \<times> event list" where
  "test_mode_reset m =
     (if test_mode m \<and> read_count m mod 100 = 0 then
        (case call_reset m of
           Raised \<Rightarrow> (m, [])
         | Returned (m1, ev) \<Rightarrow> (m1, ev))
      else (m, []))"

text \<open>
  How a turn of the loop ends: the loop goes on, it is left by \<open>break\<close>, or an
  exception leaves it (the pacing at the end reads \<open>cycle_time\<close>, which is unbound
  until the first readings). \<open>LoopEnd\<close>: the condition \<open>while self.running\<close> is false.
\<close>

datatype loop_ctl = Continue | LoopBreak | LoopRaise | LoopEnd

definition cycle :: "tick \<Rightarrow> monitor \<Rightarrow> loop_ctl \<times> monitor \<times> event list" where
  "cycle e m =
     (case readings e m of
        (True, m1, ev1) \<Rightarrow> (LoopBreak, m1, ev1)
      | (False, m1, ev1) \<Rightarrow>
          (case daily_reset e m1 of
             (m2, ev2) \<Rightarrow>
               (case test_mode_reset m2 of
                  (m3, ev3) \<Rightarrow>
                    (case cycle_time m3 of
                       None \<Rightarrow> (LoopRaise, m3, ev1 @ ev2 @ ev3)
                     | Some t \<Rightarrow> (Continue, m3, ev1 @ ev2 @ ev3)))))"

fun run_cycles :: "tick list \<Rightarrow> monitor \<Rightarrow> loop_ctl \<times> monitor \<times> event list" where
  "run_cycles [] m = (Continue, m, [])"
| "run_cycles (e # es) m =
     (if \<not> running m then (LoopEnd, m, [])
      else
        (case cycle e m of
           (Continue, m1, ev1) \<Rightarrow>
             (case run_cycles es m1 of (c, m2, ev2) \<Rightarrow> (c, m2, ev1 @ ev2))
         | (c, m1, ev1) \<Rightarrow> (c, m1, ev1)))"


subsection \<open>Synthetic frames and the specification's acceptance rule\<close>

text \<open>
  A test vector, not part of the program: the response a meter at \<open>address\<close> sends
  for the given register values (function code 4, byte count 20, registers
  big-endian, CRC low byte first).
\<close>

definition pack_be16 :: "int \<Rightarrow> byte list" where
  "pack_be16 r = [word_of_int (drop_bit 8 r), word_of_int r]"

definition synthetic_response :: "byte \<Rightarrow> int list \<Rightarrow> byte list" where
  "synthetic_response address registers =
     (let body = [address, 0x04, 20] @ concat (map pack_be16 registers);
          crc = crc16_modbus body
      in body @ [crc_lo crc, crc_hi crc])"

text \<open>The cause of a rejection, \<open>None\<close> for an accepted frame.\<close>

definition frame_verdict :: "frame_error + reading \<Rightarrow> frame_error option" where
  "frame_verdict res = (case res of Inl e \<Rightarrow> Some e | Inr data \<Rightarrow> None)"

text \<open>
  The specification's ordered checks 1 to 5 of \<open>parseReadResponse\<close>, written from its
  words, with the CRC condition of check 5 left as a parameter.
\<close>

definition spec_checks :: "bool \<Rightarrow> byte list \<Rightarrow> byte \<Rightarrow> frame_error option" where
  "spec_checks crc_differs bytes expectedAddress =
     (if length bytes < 25 then Some Incomplete
      else if bytes ! 0 \<noteq> expectedAddress then Some AddressMismatch
      else if bytes ! 1 = 0x84 then Some (DeviceException (bytes ! 2))
      else if bytes ! 1 \<noteq> 0x04 then Some FunctionMismatch
      else if bytes ! 2 \<noteq> 20 then Some LengthMismatch
      else if crc_differs then Some CrcMismatch
      else None)"

text \<open>The 16-bit value of two bytes, low byte first.\<close>

definition le16 :: "byte \<Rightarrow> byte \<Rightarrow> int" where
  "le16 lo hi = uint lo OR push_bit 8 (uint hi)"

text \<open>
  Check 5 as the specification words it: the trailing two bytes against the CRC of
  \<open>bytes[0..23)\<close>.
\<close>

definition spec_verdict :: "byte list \<Rightarrow> byte \<Rightarrow> frame_error option" where
  "spec_verdict bytes expectedAddress =
     spec_checks
       (le16 (bytes ! (length bytes - 2)) (bytes ! (length bytes - 1))
          \<noteq> crc16_modbus (take 23 bytes))
       bytes expectedAddress"

text \<open>
  Check 5 as the code computes it: the last two collected bytes against the CRC of
  everything before them.
\<close>

definition code_verdict :: "byte list \<Rightarrow> byte \<Rightarrow> frame_error option" where
  "code_verdict bytes expectedAddress =
     spec_checks
       (le16 (bytes ! (length bytes - 2)) (bytes ! (length bytes - 1))
          \<noteq> crc16_modbus (take (length bytes - 2) bytes))
       bytes expectedAddress"

text \<open>The registers of the specification's decode example.\<close>

definition example_registers :: "int list" where
  "example_registers = [2200, 1500, 0, 500, 0, 0, 0, 500, 0, 950]"

text \<open>
  A 26-byte sequence: the first 23 bytes of the example frame, one more byte, and
  the CRC of these 24 bytes.
\<close>

definition long_response :: "byte list" where
  "long_response =
     [1, 4, 20, 8, 152, 5, 220, 0, 0, 1, 244, 0, 0, 0, 0, 0, 0, 1, 244, 0, 0, 3, 182,
      0, 116, 165]"

text \<open>A register value fits 16 bits.\<close>

definition u16 :: "int \<Rightarrow> bool" where
  "u16 r = (0 \<le> r \<and> r < 65536)"


text \<open>
  A meter at address 1 that reports 200 V, 5 A, 1000 W, 50 Hz and power factor 1,
  polled at clock \<open>t\<close>.
\<close>

definition kilowatt_registers :: "int list" where
  "kilowatt_registers = [2000, 5000, 0, 10000, 0, 0, 0, 500, 100, 0]"

definition kilowatt_poll :: "int \<Rightarrow> poll" where
  "kilowatt_poll t =
     \<lparr>rx = Collected (synthetic_response 1 kilowatt_registers), stamp = t, clock = t\<rparr>"

text \<open>A poll at clock \<open>t\<close> that collects the given bytes.\<close>

definition poll_of :: "byte list \<Rightarrow> int \<Rightarrow> poll" where
  "poll_of bytes t = \<lparr>rx = Collected bytes, stamp = t, clock = t\<rparr>"

text \<open>The operations on a handler, and a run of them.\<close>

datatype handler_op = ReadA poll | ReadB poll | ResetDaily

fun apply_op :: "pzem_handler \<Rightarrow> handler_op \<Rightarrow> pzem_handler" where
  "apply_op h (ReadA p) = snd (read_tenant_a h p)"
| "apply_op h (ReadB p) = snd (read_tenant_b h p)"
| "apply_op h ResetDaily = reset_daily_counters h"

definition apply_ops :: "pzem_handler \<Rightarrow> handler_op list \<Rightarrow> pzem_handler" where
  "apply_ops h ops = foldl apply_op h ops"

text \<open>
  Names for the conditions and the steps of a turn of the loop: the readings are
  due; a fault streak has reached the threshold; the two polls and the assignments
  after them.
\<close>

definition due :: "tick \<Rightarrow> monitor \<Rightarrow> bool" where
  "due e m = (current_time e - last_reading m \<ge> 1)"

definition restart_needed :: "monitor \<Rightarrow> bool" where
  "restart_needed m =
     (consecutive_errors m TenantA \<ge> max_consecutive_errors m
      \<or> consecutive_errors m TenantB \<ge> max_consecutive_errors m)"

definition polls :: "tick \<Rightarrow> monitor \<Rightarrow> monitor" where
  "polls e m =
     (snd (read_tenant_data TenantB (poll_b e) (snd (read_tenant_data TenantA (poll_a e) m))))
       \<lparr>last_reading := current_time e, cycle_time := Some (cycle_ms e)\<rparr>"

text \<open>
  A monitor with a handler, and turns of the loop inside the reset window, one
  second apart, during which both meters stay silent and no handler can be built
  again.
\<close>

definition started_monitor :: monitor where
  "started_monitor = init_monitor\<lparr>pzem := Some new_handler\<rparr>"

definition window_tick :: "int \<Rightarrow> tick" where
  "window_tick t =
     \<lparr>current_time = t, inits = (\<lambda>k. CtorRaised), poll_a = poll_of [] t,
      poll_b = poll_of [] t, cycle_ms = 700, reset_time = t, reset_hour = 0,
      reset_minute = 1\<rparr>"

definition five_ticks :: "tick list" where
  "five_ticks = map window_tick [86460, 86461, 86462, 86463, 86464]"

text \<open>A monitor whose handler has sampled meter A at clock 100.\<close>

definition invalid_sample_monitor :: monitor where
  "invalid_sample_monitor =
     init_monitor\<lparr>pzem := Some (new_handler\<lparr>last_reading_a := 100\<rparr>)\<rparr>"

text \<open>Monitors whose meter A has failed nine and ten times in a row.\<close>

definition ninth_failure_monitor :: monitor where
  "ninth_failure_monitor =
     started_monitor\<lparr>consecutive_errors := (\<lambda>t. if t = TenantA then 9 else 0)\<rparr>"

definition tenth_failure_monitor :: monitor where
  "tenth_failure_monitor =
     started_monitor\<lparr>consecutive_errors := (\<lambda>t. if t = TenantA then 10 else 0)\<rparr>"

text \<open>
  Twelve turns of the loop at noon, one second apart, during which neither meter
  sends a byte.
\<close>

definition silent_tick :: "int \<Rightarrow> tick" where
  "silent_tick t =
     \<lparr>current_time = t, inits = (\<lambda>k. CtorRaised), poll_a = poll_of [] t,
      poll_b = poll_of [] t, cycle_ms = 1300, reset_time = t, reset_hour = 12,
      reset_minute = 0\<rparr>"

definition silent_ticks :: "tick list" where
  "silent_ticks =
     map silent_tick
       [43200, 43201, 43202, 43203, 43204, 43205, 43206, 43207, 43208, 43209, 43210, 43211]"

section \<open>Properties of the frame codec\<close>

subsection \<open>The CRC register stays within 16 bits\<close>

lemma crc_shift_range:
  assumes "0 \<le> c" "c < 65536"
  shows "0 \<le> crc_shift c \<and> crc_shift c < 65536"
proof -
  have d: "0 \<le> drop_bit 1 c" "drop_bit 1 c < 2 ^ 16"
    using assms by (simp_all add: drop_bit_eq_div)
  have "drop_bit 1 c XOR 0xA001 < 2 ^ 16"
    by (rule XOR_upper) (use d in simp_all)
  moreover have "0 \<le> drop_bit 1 c XOR 0xA001"
    using d by simp
  ultimately show ?thesis
    using d by (simp add: crc_shift_def)
qed

lemma crc_bits_range:
  "0 \<le> c \<Longrightarrow> c < 65536 \<Longrightarrow> 0 \<le> crc_bits n c \<and> crc_bits n c < 65536"
  by (induction n arbitrary: c) (simp_all add: crc_shift_range)

lemma crc_byte_range:
  assumes "0 \<le> c" "c < 65536"
  shows "0 \<le> crc_byte c b \<and> crc_byte c b < 65536"
proof -
  have u: "uint b < 2 ^ 16"
    using uint_bounded [of b] by simp
  have "c XOR uint b < 2 ^ 16"
    by (rule XOR_upper) (use assms u in simp_all)
  moreover have "0 \<le> c XOR uint b"
    using assms by simp
  ultimately show ?thesis
    unfolding crc_byte_def by (intro crc_bits_range) simp_all
qed

lemma foldl_crc_range:
  "0 \<le> c \<Longrightarrow> c < 65536 \<Longrightarrow>
   0 \<le> foldl crc_byte c data \<and> foldl crc_byte c data < 65536"
  by (induction data arbitrary: c) (simp_all add: crc_byte_range)

lemma crc16_range: "0 \<le> crc16_modbus data \<and> crc16_modbus data < 65536"
  unfolding crc16_modbus_def by (rule foldl_crc_range) simp_all

subsection \<open>Feeding a CRC its own two bytes\<close>




lemma mask8: "(255::int) = mask 8"
  by (simp add: mask_eq_exp_minus_1)

lemma uint_crc_lo: "uint (crc_lo c) = take_bit 8 c"
  by (simp add: crc_lo_def uint_word_of_int mask8 take_bit_eq_mask [symmetric]
      take_bit_eq_mod)

lemma uint_crc_hi: "uint (crc_hi c) = take_bit 8 (drop_bit 8 c)"
  by (simp add: crc_hi_def uint_word_of_int mask8 take_bit_eq_mask [symmetric]
      take_bit_eq_mod)






subsection \<open>Decoding a well-formed frame\<close>

lemma le16_crc:
  assumes "0 \<le> c" "c < 65536"
  shows "le16 (crc_lo c) (crc_hi c) = c"
proof -
  have "take_bit 16 c = c"
    using assms by (simp add: take_bit_int_eq_self)
  moreover have "take_bit 8 c OR push_bit 8 (take_bit 8 (drop_bit 8 c)) = take_bit 16 c"
    by (rule bit_eqI) (auto simp add: bit_simps)
  ultimately show ?thesis
    by (simp add: le16_def uint_crc_lo uint_crc_hi)
qed

lemma unpack_pack:
  assumes "u16 r"
  shows "256 * uint (word_of_int (drop_bit 8 r) :: byte) + uint (word_of_int r :: byte) = r"
proof -
  have "drop_bit 8 r < 2 ^ 8" "0 \<le> drop_bit 8 r"
    using assms by (auto simp add: drop_bit_eq_div u16_def)
  then have "take_bit 8 (drop_bit 8 r) = drop_bit 8 r"
    by (simp add: take_bit_int_eq_self)
  then show ?thesis
    by (simp add: uint_word_of_int_eq take_bit_eq_mod drop_bit_eq_div)
qed

lemma synthetic_response_eq:
  "synthetic_response a [r0, r1, r2, r3, r4, r5, r6, r7, r8, r9] =
     (let body = [a, 4, 20] @ pack_be16 r0 @ pack_be16 r1 @ pack_be16 r2 @ pack_be16 r3
            @ pack_be16 r4 @ pack_be16 r5 @ pack_be16 r6 @ pack_be16 r7 @ pack_be16 r8
            @ pack_be16 r9
      in body @ [crc_lo (crc16_modbus body), crc_hi (crc16_modbus body)])"
  by (simp add: synthetic_response_def Let_def)

lemma parse_packed:
  assumes "u16 r0" "u16 r1" "u16 r2" "u16 r3" "u16 r4"
    and "u16 r5" "u16 r6" "u16 r7" "u16 r8" "u16 r9"
  shows "map (\<lambda>k. unpack_be16 (pack_be16 r0 @ pack_be16 r1 @ pack_be16 r2 @ pack_be16 r3
            @ pack_be16 r4 @ pack_be16 r5 @ pack_be16 r6 @ pack_be16 r7 @ pack_be16 r8
            @ pack_be16 r9) (2 * k)) [0..<10] = [r0, r1, r2, r3, r4, r5, r6, r7, r8, r9]"
proof -
  have u: "[0..<10] = [0, 1, 2, 3, 4, 5, 6, 7, 8, 9::nat]"
    by (simp add: upt_rec)
  show ?thesis
    unfolding u using assms
    by (simp add: unpack_be16_def pack_be16_def unpack_pack)
qed

text \<open>
  Claim C1, as amended. For every ten 16-bit register values \<open>r0..r9\<close>, the 25-byte
  frame with the right address, function code 4, byte count 20 and a valid CRC
  decodes to voltage \<open>r0/10\<close>, current \<open>((r2<<16)|r1)/1000\<close>, power
  \<open>((r4<<16)|r3)/10\<close>, device energy \<open>(r6<<16)|r5\<close>, frequency \<open>r7/10\<close> and power
  factor \<open>r8/100\<close> clamped to \<open>[0,1]\<close>, forced to 0 when current or power is 0. For
  the registers \<open>[2200,1500,0,500,0,0,0,500,0,950]\<close> this is voltage 220, current
  1.5, power 50, energy 0, frequency 50 and power factor 0: register 8 is 0, and
  the 950 is in register 9, which is not read.
\<close>

theorem decode_synthetic_response:
  assumes "u16 r0" "u16 r1" "u16 r2" "u16 r3" "u16 r4"
    and "u16 r5" "u16 r6" "u16 r7" "u16 r8" "u16 r9"
  shows "read_response (synthetic_response a [r0, r1, r2, r3, r4, r5, r6, r7, r8, r9]) a now =
     Inr \<lparr>voltage = real_of_int r0 / 10,
          current = real_of_int (push_bit 16 r2 OR r1) / 1000,
          power = real_of_int (push_bit 16 r4 OR r3) / 10,
          energy = real_of_int (push_bit 16 r6 OR r5),
          frequency = real_of_int r7 / 10,
          power_factor =
            (if real_of_int (push_bit 16 r2 OR r1) / 1000 = 0
                \<or> real_of_int (push_bit 16 r4 OR r3) / 10 = 0 then 0
             else min (max (real_of_int r8 / 100) 0) 1),
          timestamp = now\<rparr>"
proof -
  define body where "body = [a, 4, 20] @ pack_be16 r0 @ pack_be16 r1 @ pack_be16 r2
     @ pack_be16 r3 @ pack_be16 r4 @ pack_be16 r5 @ pack_be16 r6 @ pack_be16 r7
     @ pack_be16 r8 @ pack_be16 r9"
  define c where "c = crc16_modbus body"
  define resp where "resp = body @ [crc_lo c, crc_hi c]"
  have resp: "synthetic_response a [r0, r1, r2, r3, r4, r5, r6, r7, r8, r9] = resp"
    by (simp add: synthetic_response_eq Let_def resp_def c_def body_def)
  have lb: "length body = 23"
    by (simp add: body_def pack_be16_def)
  have len: "length resp = 25"
    by (simp add: resp_def lb)
  have hd: "resp ! 0 = a" "resp ! Suc 0 = 4" "resp ! 2 = 20"
    by (simp_all add: resp_def body_def)
  have tk: "take 23 resp = body"
    by (simp add: resp_def lb)
  have tl: "resp ! 23 = crc_lo c" "resp ! 24 = crc_hi c"
    by (simp_all add: resp_def lb nth_append)
  have crc: "uint (crc_lo c) OR push_bit 8 (uint (crc_hi c)) = c"
    using le16_crc [of c] crc16_range [of body] by (simp add: c_def le16_def)
  have data: "take 20 (drop 3 resp) = pack_be16 r0 @ pack_be16 r1 @ pack_be16 r2
     @ pack_be16 r3 @ pack_be16 r4 @ pack_be16 r5 @ pack_be16 r6 @ pack_be16 r7
     @ pack_be16 r8 @ pack_be16 r9"
    by (simp add: resp_def body_def pack_be16_def)
  have "read_response resp a now = Inr (parse_data (take 20 (drop 3 resp)) now)"
    by (simp add: read_response_def len hd tk tl crc c_def [symmetric] Let_def)
  also have "\<dots> = Inr \<lparr>voltage = real_of_int r0 / 10,
          current = real_of_int (push_bit 16 r2 OR r1) / 1000,
          power = real_of_int (push_bit 16 r4 OR r3) / 10,
          energy = real_of_int (push_bit 16 r6 OR r5),
          frequency = real_of_int r7 / 10,
          power_factor =
            (if real_of_int (push_bit 16 r2 OR r1) / 1000 = 0
                \<or> real_of_int (push_bit 16 r4 OR r3) / 10 = 0 then 0
             else min (max (real_of_int r8 / 100) 0) 1),
          timestamp = now\<rparr>"
    unfolding data parse_data_def parse_packed [OF assms] Let_def by simp
  finally show ?thesis
    by (simp add: resp)
qed

theorem decode_synthetic_response_witness:
  "u16 2200 \<and> u16 1500 \<and> u16 0 \<and> u16 500 \<and> u16 950
   \<and> read_response (synthetic_response 1 [2200, 1500, 0, 500, 0, 0, 0, 500, 0, 950]) 1 42 =
     Inr \<lparr>voltage = 220, current = 3 / 2, power = 50, energy = 0, frequency = 50,
          power_factor = 0, timestamp = 42\<rparr>"
proof -
  have u: "u16 2200" "u16 1500" "u16 0" "u16 500" "u16 950"
    by (simp_all add: u16_def)
  show ?thesis
    using u decode_synthetic_response [of 2200 1500 0 500 0 0 0 500 0 950 1 42]
    by simp
qed

text \<open>
  The claim as stated fails: the frame of the specification's example decodes to
  power factor 0, not 0.95.
\<close>

theorem decode_example_power_factor:
  "read_response (synthetic_response 1 example_registers) 1 0 =
     Inr \<lparr>voltage = 220, current = 3 / 2, power = 50, energy = 0, frequency = 50,
          power_factor = 0, timestamp = 0\<rparr>
   \<and> read_response (synthetic_response 1 example_registers) 1 0 \<noteq>
     Inr \<lparr>voltage = 220, current = 3 / 2, power = 50, energy = 0, frequency = 50,
          power_factor = 95 / 100, timestamp = 0\<rparr>"
  by code_simp

subsection \<open>The order of the frame checks\<close>

lemma read_response_verdict: "frame_verdict (read_response r a now) = code_verdict r a"
  by (simp add: frame_verdict_def read_response_def code_verdict_def spec_checks_def
      le16_def Let_def)

text \<open>
  Claim C4, as amended. For every collected byte sequence and expected address,
  \<open>read_response\<close> rejects for the first of these causes that holds, and accepts when
  none does: fewer than 25 bytes; byte 0 is not the address; byte 1 is \<open>0x84\<close>
  (device exception with code byte 2) or else is not \<open>0x04\<close>; byte 2 is not 20; the
  last two collected bytes differ from the CRC of all the bytes before them. When
  exactly 25 bytes were collected, the last check is the specification's: the
  trailing two bytes against the CRC of \<open>bytes[0..23)\<close>.
\<close>

theorem read_response_checks_in_order:
  "frame_verdict (read_response r a now) = code_verdict r a
   \<and> (length r = 25 \<longrightarrow> frame_verdict (read_response r a now) = spec_verdict r a)"
  by (simp add: read_response_verdict code_verdict_def spec_verdict_def)

theorem read_response_checks_in_order_witness:
  "length (synthetic_response 2 example_registers) = 25
   \<and> frame_verdict (read_response (synthetic_response 2 example_registers) 2 0) = None
   \<and> spec_verdict (synthetic_response 2 example_registers) 2 = None
   \<and> spec_verdict (synthetic_response 2 example_registers) 1 = Some AddressMismatch"
proof -
  have l: "length (synthetic_response 2 example_registers) = 25"
    by code_simp
  have v: "spec_verdict (synthetic_response 2 example_registers) 2 = None"
    by code_simp
  have w: "spec_verdict (synthetic_response 2 example_registers) 1 = Some AddressMismatch"
    by code_simp
  show ?thesis
    using l v w
      read_response_checks_in_order [of "synthetic_response 2 example_registers" 2 0]
    by metis
qed

text \<open>
  The claim as stated fails on a sequence of more than 25 bytes: the code accepts
  this one, whose last two bytes are the CRC of the 24 bytes before them, although
  neither they nor bytes 23 and 24 are the CRC of \<open>bytes[0..23)\<close>.
\<close>

theorem read_response_long_response:
  "length long_response = 26
   \<and> read_response long_response 1 0 =
       Inr \<lparr>voltage = 220, current = 3 / 2, power = 50, energy = 0, frequency = 50,
            power_factor = 0, timestamp = 0\<rparr>
   \<and> spec_verdict long_response 1 = Some CrcMismatch
   \<and> le16 (long_response ! 23) (long_response ! 24) \<noteq> crc16_modbus (take 23 long_response)"
  by code_simp

section \<open>Properties of the metering\<close>



lemma read_tenant_a_success:
  assumes "rx p = Collected bs" "read_response bs (address_a h) (stamp p) = Inr data"
  shows "energy_a (snd (read_tenant_a h p)) =
           energy_a h + (if last_reading_a h > 0 \<and> 0 < clock p - last_reading_a h
                            \<and> clock p - last_reading_a h \<le> 10
                         then power data * real_of_int (clock p - last_reading_a h) / 3600 / 1000
                         else 0)"
    and "daily_energy_a (snd (read_tenant_a h p)) =
           daily_energy_a h + (if last_reading_a h > 0 \<and> 0 < clock p - last_reading_a h
                            \<and> clock p - last_reading_a h \<le> 10
                         then power data * real_of_int (clock p - last_reading_a h) / 3600 / 1000
                         else 0)"
    and "last_reading_a (snd (read_tenant_a h p)) = clock p"
    and "energy_b (snd (read_tenant_a h p)) = energy_b h"
    and "daily_energy_b (snd (read_tenant_a h p)) = daily_energy_b h"
    and "last_reading_b (snd (read_tenant_a h p)) = last_reading_b h"
    and "address_a (snd (read_tenant_a h p)) = address_a h"
    and "address_b (snd (read_tenant_a h p)) = address_b h"
  using assms by (simp_all add: read_tenant_a_def Let_def)

lemma read_tenant_b_success:
  assumes "rx p = Collected bs" "read_response bs (address_b h) (stamp p) = Inr data"
  shows "energy_b (snd (read_tenant_b h p)) =
           energy_b h + (if last_reading_b h > 0 \<and> 0 < clock p - last_reading_b h
                            \<and> clock p - last_reading_b h \<le> 10
                         then power data * real_of_int (clock p - last_reading_b h) / 3600 / 1000
                         else 0)"
    and "daily_energy_b (snd (read_tenant_b h p)) =
           daily_energy_b h + (if last_reading_b h > 0 \<and> 0 < clock p - last_reading_b h
                            \<and> clock p - last_reading_b h \<le> 10
                         then power data * real_of_int (clock p - last_reading_b h) / 3600 / 1000
                         else 0)"
    and "last_reading_b (snd (read_tenant_b h p)) = clock p"
    and "energy_a (snd (read_tenant_b h p)) = energy_a h"
    and "daily_energy_a (snd (read_tenant_b h p)) = daily_energy_a h"
    and "last_reading_a (snd (read_tenant_b h p)) = last_reading_a h"
    and "address_a (snd (read_tenant_b h p)) = address_a h"
    and "address_b (snd (read_tenant_b h p)) = address_b h"
  using assms by (simp_all add: read_tenant_b_def Let_def)

lemma read_tenant_a_failure:
  assumes "rx p = UartError \<or> (\<exists>bs e. rx p = Collected bs \<and> read_response bs (address_a h) (stamp p) = Inl e)"
  shows "read_tenant_a h p = (zero_data (energy_a h) (daily_energy_a h) (clock p), h)"
  using assms by (auto simp add: read_tenant_a_def)

lemma read_tenant_b_failure:
  assumes "rx p = UartError \<or> (\<exists>bs e. rx p = Collected bs \<and> read_response bs (address_b h) (stamp p) = Inl e)"
  shows "read_tenant_b h p = (zero_data (energy_b h) (daily_energy_b h) (clock p), h)"
  using assms by (auto simp add: read_tenant_b_def)

lemma unpack_be16_nonneg: "0 \<le> unpack_be16 bs i"
  by (simp add: unpack_be16_def)

lemma parse_data_power_nonneg: "0 \<le> power (parse_data bs now)"
proof -
  have u: "[0..<10] = [0, 1, 2, 3, 4, 5, 6, 7, 8, 9::nat]"
    by (simp add: upt_rec)
  show ?thesis
    unfolding parse_data_def Let_def u
    by (simp add: unpack_be16_nonneg)
qed

lemma read_response_power_nonneg:
  "read_response bs a now = Inr data \<Longrightarrow> 0 \<le> power data"
  using parse_data_power_nonneg
  by (auto simp add: read_response_def Let_def split: if_splits)


lemma read_tenant_a_cases:
  obtains (fail) "read_tenant_a h p = (zero_data (energy_a h) (daily_energy_a h) (clock p), h)"
  | (ok) bs data where "rx p = Collected bs"
      "read_response bs (address_a h) (stamp p) = Inr data"
proof (cases "rx p")
  case UartError
  then show ?thesis using fail read_tenant_a_failure by blast
next
  case (Collected bs)
  show ?thesis
  proof (cases "read_response bs (address_a h) (stamp p)")
    case (Inl e)
    with Collected show ?thesis using fail read_tenant_a_failure by blast
  next
    case (Inr data)
    with Collected show ?thesis using ok by blast
  qed
qed

lemma read_tenant_b_cases:
  obtains (fail) "read_tenant_b h p = (zero_data (energy_b h) (daily_energy_b h) (clock p), h)"
  | (ok) bs data where "rx p = Collected bs"
      "read_response bs (address_b h) (stamp p) = Inr data"
proof (cases "rx p")
  case UartError
  then show ?thesis using fail read_tenant_b_failure by blast
next
  case (Collected bs)
  show ?thesis
  proof (cases "read_response bs (address_b h) (stamp p)")
    case (Inl e)
    with Collected show ?thesis using fail read_tenant_b_failure by blast
  next
    case (Inr data)
    with Collected show ?thesis using ok by blast
  qed
qed

lemma read_tenant_a_mono:
  "energy_a h \<le> energy_a (snd (read_tenant_a h p))
   \<and> daily_energy_a h \<le> daily_energy_a (snd (read_tenant_a h p))
   \<and> energy_b (snd (read_tenant_a h p)) = energy_b h
   \<and> daily_energy_b (snd (read_tenant_a h p)) = daily_energy_b h"
proof (cases rule: read_tenant_a_cases [of h p])
  case fail
  then show ?thesis by simp
next
  case (ok bs data)
  have "0 \<le> power data"
    using ok(2) by (rule read_response_power_nonneg)
  then show ?thesis
    by (simp add: read_tenant_a_success [OF ok])
qed

lemma read_tenant_b_mono:
  "energy_b h \<le> energy_b (snd (read_tenant_b h p))
   \<and> daily_energy_b h \<le> daily_energy_b (snd (read_tenant_b h p))
   \<and> energy_a (snd (read_tenant_b h p)) = energy_a h
   \<and> daily_energy_a (snd (read_tenant_b h p)) = daily_energy_a h"
proof (cases rule: read_tenant_b_cases [of h p])
  case fail
  then show ?thesis by simp
next
  case (ok bs data)
  have "0 \<le> power data"
    using ok(2) by (rule read_response_power_nonneg)
  then show ?thesis
    by (simp add: read_tenant_b_success [OF ok])
qed

lemma apply_op_mono:
  "energy_a h \<le> energy_a (apply_op h x) \<and> energy_b h \<le> energy_b (apply_op h x)"
  using read_tenant_a_mono [of h] read_tenant_b_mono [of h]
  by (cases x) (simp_all add: reset_daily_counters_def)

lemma foldl_apply_op_mono:
  "energy_a h \<le> energy_a (foldl apply_op h ops) \<and> energy_b h \<le> energy_b (foldl apply_op h ops)"
proof (induction ops arbitrary: h)
  case Nil
  show ?case by simp
next
  case (Cons x ops)
  have "energy_a h \<le> energy_a (apply_op h x)" "energy_b h \<le> energy_b (apply_op h x)"
    using apply_op_mono [of h x] by simp_all
  moreover have "energy_a (apply_op h x) \<le> energy_a (foldl apply_op (apply_op h x) ops)"
    "energy_b (apply_op h x) \<le> energy_b (foldl apply_op (apply_op h x) ops)"
    using Cons.IH [of "apply_op h x"] by simp_all
  ultimately show ?case by simp
qed

text \<open>
  Claim C2, as amended. For every poll whose frame decodes, the previous sample
  exists when the stored time stamp is positive; then, with
  \<open>delta = now - last\<close>, the increment \<open>power * delta / 3600 / 1000\<close> is added to the
  lifetime and to the daily accumulator if and only if \<open>0 < delta \<le> 10\<close>; without a
  positive stored time stamp nothing is added; the time stamp is set to \<open>now\<close> in
  every case. Two samples of 1000 W five seconds apart, the first at a positive
  clock value, add 0.0013889 kWh (within 1e-6) to both accumulators, and two samples
  15 s apart never change them. The same holds for the second meter.
\<close>

theorem energy_integration:
  "(rx p = Collected bs \<and> read_response bs (address_a h) (stamp p) = Inr data \<longrightarrow>
      last_reading_a (snd (read_tenant_a h p)) = clock p
      \<and> energy_a (snd (read_tenant_a h p)) - energy_a h =
          (if last_reading_a h > 0 \<and> 0 < clock p - last_reading_a h
              \<and> clock p - last_reading_a h \<le> 10
           then power data * real_of_int (clock p - last_reading_a h) / 3600 / 1000 else 0)
      \<and> daily_energy_a (snd (read_tenant_a h p)) - daily_energy_a h =
          energy_a (snd (read_tenant_a h p)) - energy_a h
      \<and> (last_reading_a h > 0 \<and> power data = 1000 \<and> clock p = last_reading_a h + 5 \<longrightarrow>
            \<bar>energy_a (snd (read_tenant_a h p)) - energy_a h - 13889 / 10000000\<bar> < 1 / 1000000)
      \<and> (clock p = last_reading_a h + 15 \<longrightarrow>
            energy_a (snd (read_tenant_a h p)) = energy_a h
            \<and> daily_energy_a (snd (read_tenant_a h p)) = daily_energy_a h))
   \<and> (rx p = Collected bs \<and> read_response bs (address_b h) (stamp p) = Inr data \<longrightarrow>
      last_reading_b (snd (read_tenant_b h p)) = clock p
      \<and> energy_b (snd (read_tenant_b h p)) - energy_b h =
          (if last_reading_b h > 0 \<and> 0 < clock p - last_reading_b h
              \<and> clock p - last_reading_b h \<le> 10
           then power data * real_of_int (clock p - last_reading_b h) / 3600 / 1000 else 0)
      \<and> daily_energy_b (snd (read_tenant_b h p)) - daily_energy_b h =
          energy_b (snd (read_tenant_b h p)) - energy_b h
      \<and> (last_reading_b h > 0 \<and> power data = 1000 \<and> clock p = last_reading_b h + 5 \<longrightarrow>
            \<bar>energy_b (snd (read_tenant_b h p)) - energy_b h - 13889 / 10000000\<bar> < 1 / 1000000)
      \<and> (clock p = last_reading_b h + 15 \<longrightarrow>
            energy_b (snd (read_tenant_b h p)) = energy_b h
            \<and> daily_energy_b (snd (read_tenant_b h p)) = daily_energy_b h))"
proof (intro conjI impI)
  assume a: "rx p = Collected bs \<and> read_response bs (address_a h) (stamp p) = Inr data"
  note s = read_tenant_a_success [OF conjunct1 [OF a] conjunct2 [OF a]]
  show "last_reading_a (snd (read_tenant_a h p)) = clock p"
    by (simp add: s)
  show "energy_a (snd (read_tenant_a h p)) - energy_a h =
          (if last_reading_a h > 0 \<and> 0 < clock p - last_reading_a h
              \<and> clock p - last_reading_a h \<le> 10
           then power data * real_of_int (clock p - last_reading_a h) / 3600 / 1000 else 0)"
    by (simp add: s)
  show "daily_energy_a (snd (read_tenant_a h p)) - daily_energy_a h =
          energy_a (snd (read_tenant_a h p)) - energy_a h"
    by (simp add: s)
  show "\<bar>energy_a (snd (read_tenant_a h p)) - energy_a h - 13889 / 10000000\<bar> < 1 / 1000000"
    if "last_reading_a h > 0 \<and> power data = 1000 \<and> clock p = last_reading_a h + 5"
    using that by (simp add: s)
  show "energy_a (snd (read_tenant_a h p)) = energy_a h"
    if "clock p = last_reading_a h + 15"
    using that by (simp add: s)
  show "daily_energy_a (snd (read_tenant_a h p)) = daily_energy_a h"
    if "clock p = last_reading_a h + 15"
    using that by (simp add: s)
next
  assume b: "rx p = Collected bs \<and> read_response bs (address_b h) (stamp p) = Inr data"
  note s = read_tenant_b_success [OF conjunct1 [OF b] conjunct2 [OF b]]
  show "last_reading_b (snd (read_tenant_b h p)) = clock p"
    by (simp add: s)
  show "energy_b (snd (read_tenant_b h p)) - energy_b h =
          (if last_reading_b h > 0 \<and> 0 < clock p - last_reading_b h
              \<and> clock p - last_reading_b h \<le> 10
           then power data * real_of_int (clock p - last_reading_b h) / 3600 / 1000 else 0)"
    by (simp add: s)
  show "daily_energy_b (snd (read_tenant_b h p)) - daily_energy_b h =
          energy_b (snd (read_tenant_b h p)) - energy_b h"
    by (simp add: s)
  show "\<bar>energy_b (snd (read_tenant_b h p)) - energy_b h - 13889 / 10000000\<bar> < 1 / 1000000"
    if "last_reading_b h > 0 \<and> power data = 1000 \<and> clock p = last_reading_b h + 5"
    using that by (simp add: s)
  show "energy_b (snd (read_tenant_b h p)) = energy_b h"
    if "clock p = last_reading_b h + 15"
    using that by (simp add: s)
  show "daily_energy_b (snd (read_tenant_b h p)) = daily_energy_b h"
    if "clock p = last_reading_b h + 15"
    using that by (simp add: s)
qed

theorem energy_integration_witness:
  "rx (kilowatt_poll 105) = Collected (synthetic_response 1 kilowatt_registers)
   \<and> read_response (synthetic_response 1 kilowatt_registers)
        (address_a (new_handler\<lparr>last_reading_a := 100\<rparr>)) (stamp (kilowatt_poll 105))
       = Inr \<lparr>voltage = 200, current = 5, power = 1000, energy = 0, frequency = 50,
              power_factor = 1, timestamp = 105\<rparr>
   \<and> clock (kilowatt_poll 105) = 100 + 5
   \<and> last_reading_a (snd (read_tenant_a (new_handler\<lparr>last_reading_a := 100\<rparr>)
        (kilowatt_poll 105))) = 105
   \<and> energy_a (snd (read_tenant_a (new_handler\<lparr>last_reading_a := 100\<rparr>)
        (kilowatt_poll 105))) = 1 / 720
   \<and> daily_energy_a (snd (read_tenant_a (new_handler\<lparr>last_reading_a := 100\<rparr>)
        (kilowatt_poll 105))) = 1 / 720"
proof -
  have r: "rx (kilowatt_poll 105) = Collected (synthetic_response 1 kilowatt_registers)"
    by (simp add: kilowatt_poll_def)
  have d: "read_response (synthetic_response 1 kilowatt_registers)
        (address_a (new_handler\<lparr>last_reading_a := 100\<rparr>)) (stamp (kilowatt_poll 105))
       = Inr \<lparr>voltage = 200, current = 5, power = 1000, energy = 0, frequency = 50,
              power_factor = 1, timestamp = 105\<rparr>"
    by code_simp
  have c: "clock (kilowatt_poll 105) = 100 + 5"
    by (simp add: kilowatt_poll_def)
  have h: "energy_a (new_handler\<lparr>last_reading_a := 100\<rparr>) = 0"
    "daily_energy_a (new_handler\<lparr>last_reading_a := 100\<rparr>) = 0"
    "last_reading_a (new_handler\<lparr>last_reading_a := 100\<rparr>) = 100"
    by (simp_all add: new_handler_def)
  show ?thesis
    using r d c h
      energy_integration [of "kilowatt_poll 105" "synthetic_response 1 kilowatt_registers"
        "new_handler\<lparr>last_reading_a := 100\<rparr>"
        "\<lparr>voltage = 200, current = 5, power = 1000, energy = 0, frequency = 50,
              power_factor = 1, timestamp = 105\<rparr>"]
    by simp
qed

text \<open>
  The claim as stated fails for the clock values it names: a sample at clock 0
  stores the time stamp 0, which the next poll reads as "no previous sample", so two
  samples of 1000 W at \<open>t = 0\<close> and \<open>t = 5\<close> add nothing.
\<close>

theorem energy_integration_from_clock_zero:
  "power (fst (read_tenant_a new_handler (kilowatt_poll 0))) = 1000
   \<and> power (fst (read_tenant_a (snd (read_tenant_a new_handler (kilowatt_poll 0)))
        (kilowatt_poll 5))) = 1000
   \<and> energy_a (snd (read_tenant_a (snd (read_tenant_a new_handler (kilowatt_poll 0)))
        (kilowatt_poll 5))) = energy_a (snd (read_tenant_a new_handler (kilowatt_poll 0)))
   \<and> daily_energy_a (snd (read_tenant_a (snd (read_tenant_a new_handler (kilowatt_poll 0)))
        (kilowatt_poll 5))) = daily_energy_a (snd (read_tenant_a new_handler (kilowatt_poll 0)))"
  by code_simp

text \<open>
  Claim C7. For every poll whose frame is rejected by \<open>read_response\<close>, or whose UART
  calls raise, \<open>read_tenant_a\<close> and \<open>read_tenant_b\<close> return voltage, current, power,
  frequency and power factor 0 together with the meter's lifetime energy, daily
  energy and daily cost as they are, and leave the handler, so also the lifetime
  and daily accumulators, unchanged.
\<close>

theorem failed_poll_keeps_totals:
  "(rx p = UartError
      \<or> (\<exists>bs e. rx p = Collected bs \<and> read_response bs (address_a h) (stamp p) = Inl e) \<longrightarrow>
      snd (read_tenant_a h p) = h
      \<and> fst (read_tenant_a h p) =
          \<lparr>voltage = 0, current = 0, power = 0, energy = energy_a h, frequency = 0,
           power_factor = 0, timestamp = clock p, daily_energy = daily_energy_a h,
           daily_cost = daily_energy_a h * ENERGY_RATE_GHS\<rparr>)
   \<and> (rx p = UartError
      \<or> (\<exists>bs e. rx p = Collected bs \<and> read_response bs (address_b h) (stamp p) = Inl e) \<longrightarrow>
      snd (read_tenant_b h p) = h
      \<and> fst (read_tenant_b h p) =
          \<lparr>voltage = 0, current = 0, power = 0, energy = energy_b h, frequency = 0,
           power_factor = 0, timestamp = clock p, daily_energy = daily_energy_b h,
           daily_cost = daily_energy_b h * ENERGY_RATE_GHS\<rparr>)"
  using read_tenant_a_failure [of p h] read_tenant_b_failure [of p h]
  by (simp add: zero_data_def)

theorem failed_poll_keeps_totals_witness:
  "rx (poll_of [1, 4, 20] 7) = Collected [1, 4, 20]
   \<and> read_response [1, 4, 20]
        (address_a (new_handler\<lparr>energy_a := 3, daily_energy_a := 2, last_reading_a := 5\<rparr>))
        (stamp (poll_of [1, 4, 20] 7)) = Inl Incomplete
   \<and> snd (read_tenant_a (new_handler\<lparr>energy_a := 3, daily_energy_a := 2, last_reading_a := 5\<rparr>)
        (poll_of [1, 4, 20] 7))
       = new_handler\<lparr>energy_a := 3, daily_energy_a := 2, last_reading_a := 5\<rparr>
   \<and> energy (fst (read_tenant_a
        (new_handler\<lparr>energy_a := 3, daily_energy_a := 2, last_reading_a := 5\<rparr>)
        (poll_of [1, 4, 20] 7))) = 3
   \<and> power (fst (read_tenant_a
        (new_handler\<lparr>energy_a := 3, daily_energy_a := 2, last_reading_a := 5\<rparr>)
        (poll_of [1, 4, 20] 7))) = 0"
proof -
  have r: "rx (poll_of [1, 4, 20] 7) = Collected [1, 4, 20]"
    by (simp add: poll_of_def)
  have d: "read_response [1, 4, 20]
        (address_a (new_handler\<lparr>energy_a := 3, daily_energy_a := 2, last_reading_a := 5\<rparr>))
        (stamp (poll_of [1, 4, 20] 7)) = Inl Incomplete"
    by (simp add: read_response_def)
  have e: "energy_a (new_handler\<lparr>energy_a := 3, daily_energy_a := 2, last_reading_a := 5\<rparr>) = 3"
    by simp
  show ?thesis
    using r d e
      failed_poll_keeps_totals [of "poll_of [1, 4, 20] 7"
        "new_handler\<lparr>energy_a := 3, daily_energy_a := 2, last_reading_a := 5\<rparr>"]
    by auto
qed

text \<open>
  Claim C10. For every handler and every run of polls of either meter (decoded or
  failed) and daily resets, neither lifetime accumulator decreases: a decoded power
  is never negative and an increment is added only for a positive time difference.
  \<open>reset_daily_counters\<close> sets the two daily accumulators to 0 and changes nothing
  else, and no poll decreases a daily accumulator.
\<close>

theorem lifetime_energy_monotone:
  "energy_a h \<le> energy_a (apply_ops h ops)
   \<and> energy_b h \<le> energy_b (apply_ops h ops)
   \<and> (read_response bs a now = Inr data \<longrightarrow> 0 \<le> power data)
   \<and> reset_daily_counters h =
       h\<lparr>daily_energy_a := 0, daily_energy_b := 0\<rparr>
   \<and> energy_a (reset_daily_counters h) = energy_a h
   \<and> energy_b (reset_daily_counters h) = energy_b h
   \<and> last_reading_a (reset_daily_counters h) = last_reading_a h
   \<and> last_reading_b (reset_daily_counters h) = last_reading_b h
   \<and> daily_energy_a h \<le> daily_energy_a (snd (read_tenant_a h p))
   \<and> daily_energy_b h \<le> daily_energy_b (snd (read_tenant_a h p))
   \<and> daily_energy_a h \<le> daily_energy_a (snd (read_tenant_b h p))
   \<and> daily_energy_b h \<le> daily_energy_b (snd (read_tenant_b h p))"
  using foldl_apply_op_mono [of h ops] read_tenant_a_mono [of h p] read_tenant_b_mono [of h p]
    read_response_power_nonneg [of bs a now data]
  by (simp add: apply_ops_def reset_daily_counters_def)

theorem lifetime_energy_monotone_witness:
  "read_response (synthetic_response 1 kilowatt_registers) 1 0
     = Inr \<lparr>voltage = 200, current = 5, power = 1000, energy = 0, frequency = 50,
            power_factor = 1, timestamp = 0\<rparr>
   \<and> energy_a (apply_ops new_handler
        [ReadA (kilowatt_poll 100), ReadA (kilowatt_poll 105), ResetDaily,
         ReadA (poll_of [] 107), ReadA (kilowatt_poll 110)]) = 1 / 360
   \<and> daily_energy_a (apply_ops new_handler
        [ReadA (kilowatt_poll 100), ReadA (kilowatt_poll 105), ResetDaily,
         ReadA (poll_of [] 107), ReadA (kilowatt_poll 110)]) = 1 / 720
   \<and> energy_a new_handler \<le> energy_a (apply_ops new_handler
        [ReadA (kilowatt_poll 100), ReadA (kilowatt_poll 105), ResetDaily,
         ReadA (poll_of [] 107), ReadA (kilowatt_poll 110)])"
proof -
  have r: "read_response (synthetic_response 1 kilowatt_registers) 1 0
     = Inr \<lparr>voltage = 200, current = 5, power = 1000, energy = 0, frequency = 50,
            power_factor = 1, timestamp = 0\<rparr>"
    by code_simp
  have e: "energy_a (apply_ops new_handler
        [ReadA (kilowatt_poll 100), ReadA (kilowatt_poll 105), ResetDaily,
         ReadA (poll_of [] 107), ReadA (kilowatt_poll 110)]) = 1 / 360"
    by code_simp
  have d: "daily_energy_a (apply_ops new_handler
        [ReadA (kilowatt_poll 100), ReadA (kilowatt_poll 105), ResetDaily,
         ReadA (poll_of [] 107), ReadA (kilowatt_poll 110)]) = 1 / 720"
    by code_simp
  show ?thesis
    using r e d
      lifetime_energy_monotone [of new_handler
        "[ReadA (kilowatt_poll 100), ReadA (kilowatt_poll 105), ResetDaily,
          ReadA (poll_of [] 107), ReadA (kilowatt_poll 110)]"
        "synthetic_response 1 kilowatt_registers" 1 0
        "\<lparr>voltage = 200, current = 5, power = 1000, energy = 0, frequency = 50,
            power_factor = 1, timestamp = 0\<rparr>" "kilowatt_poll 100"]
    by simp
qed

section \<open>Properties of the validator\<close>

text \<open>
  Claim C6. \<open>_validate_data\<close> is a function of the reading alone. It reports the
  first failing check in the order voltage, current, power, frequency, power
  factor, cross-check: each reason is reported exactly when its check fails and all
  the checks before it pass. The cross-check
  \<open>|power - voltage*current*powerFactor| > 0.1 * voltage*current*powerFactor\<close> counts
  only when \<open>voltage > 10\<close> and \<open>current > 0.01\<close>. A reading with voltage 300 is
  rejected for its voltage, and a reading with voltage 230, current 5, power 1150
  and power factor 1 is valid (its frequency passing the frequency check).
\<close>

theorem validate_data_priority:
  "validate_data (Some d) t = validate_data (Some d) t'
   \<and> (validate_data (Some d) t = Invalid VoltageRange \<longleftrightarrow>
        voltage d > 0 \<and> (voltage d < 180 \<or> voltage d > 280))
   \<and> (validate_data (Some d) t = Invalid CurrentRange \<longleftrightarrow>
        \<not> (voltage d > 0 \<and> (voltage d < 180 \<or> voltage d > 280))
        \<and> (current d < 0 \<or> current d > 100))
   \<and> (validate_data (Some d) t = Invalid PowerRange \<longleftrightarrow>
        \<not> (voltage d > 0 \<and> (voltage d < 180 \<or> voltage d > 280))
        \<and> \<not> (current d < 0 \<or> current d > 100)
        \<and> (power d < 0 \<or> power d > 25000))
   \<and> (validate_data (Some d) t = Invalid FrequencyRange \<longleftrightarrow>
        \<not> (voltage d > 0 \<and> (voltage d < 180 \<or> voltage d > 280))
        \<and> \<not> (current d < 0 \<or> current d > 100)
        \<and> \<not> (power d < 0 \<or> power d > 25000)
        \<and> frequency d > 0 \<and> (frequency d < 45 \<or> frequency d > 65))
   \<and> (validate_data (Some d) t = Invalid PowerFactorRange \<longleftrightarrow>
        \<not> (voltage d > 0 \<and> (voltage d < 180 \<or> voltage d > 280))
        \<and> \<not> (current d < 0 \<or> current d > 100)
        \<and> \<not> (power d < 0 \<or> power d > 25000)
        \<and> \<not> (frequency d > 0 \<and> (frequency d < 45 \<or> frequency d > 65))
        \<and> (power_factor d < 0 \<or> power_factor d > 1))
   \<and> (validate_data (Some d) t = Invalid PowerCrossCheck \<longleftrightarrow>
        \<not> (voltage d > 0 \<and> (voltage d < 180 \<or> voltage d > 280))
        \<and> \<not> (current d < 0 \<or> current d > 100)
        \<and> \<not> (power d < 0 \<or> power d > 25000)
        \<and> \<not> (frequency d > 0 \<and> (frequency d < 45 \<or> frequency d > 65))
        \<and> \<not> (power_factor d < 0 \<or> power_factor d > 1)
        \<and> voltage d > 10 \<and> current d > 1 / 100
        \<and> \<bar>power d - voltage d * current d * power_factor d\<bar>
              > 1 / 10 * (voltage d * current d * power_factor d))
   \<and> (validate_data (Some d) t = Valid \<longleftrightarrow>
        \<not> (voltage d > 0 \<and> (voltage d < 180 \<or> voltage d > 280))
        \<and> \<not> (current d < 0 \<or> current d > 100)
        \<and> \<not> (power d < 0 \<or> power d > 25000)
        \<and> \<not> (frequency d > 0 \<and> (frequency d < 45 \<or> frequency d > 65))
        \<and> \<not> (power_factor d < 0 \<or> power_factor d > 1)
        \<and> \<not> (voltage d > 10 \<and> current d > 1 / 100
              \<and> \<bar>power d - voltage d * current d * power_factor d\<bar>
                    > 1 / 10 * (voltage d * current d * power_factor d)))
   \<and> (voltage d = 300 \<longrightarrow> validate_data (Some d) t = Invalid VoltageRange)
   \<and> (voltage d = 230 \<and> current d = 5 \<and> power d = 1150 \<and> power_factor d = 1
        \<and> \<not> (frequency d > 0 \<and> (frequency d < 45 \<or> frequency d > 65)) \<longrightarrow>
        validate_data (Some d) t = Valid)"
proof -
  have same: "validate_data (Some d) t = validate_data (Some d) t'"
    by (simp add: validate_data_def)
  have v: "validate_data (Some d) t = Invalid VoltageRange \<longleftrightarrow>
        voltage d > 0 \<and> (voltage d < 180 \<or> voltage d > 280)"
    by (auto simp add: validate_data_def Let_def)
  have c: "validate_data (Some d) t = Invalid CurrentRange \<longleftrightarrow>
        \<not> (voltage d > 0 \<and> (voltage d < 180 \<or> voltage d > 280))
        \<and> (current d < 0 \<or> current d > 100)"
    by (auto simp add: validate_data_def Let_def)
  have p: "validate_data (Some d) t = Invalid PowerRange \<longleftrightarrow>
        \<not> (voltage d > 0 \<and> (voltage d < 180 \<or> voltage d > 280))
        \<and> \<not> (current d < 0 \<or> current d > 100)
        \<and> (power d < 0 \<or> power d > 25000)"
    by (auto simp add: validate_data_def Let_def)
  have f: "validate_data (Some d) t = Invalid FrequencyRange \<longleftrightarrow>
        \<not> (voltage d > 0 \<and> (voltage d < 180 \<or> voltage d > 280))
        \<and> \<not> (current d < 0 \<or> current d > 100)
        \<and> \<not> (power d < 0 \<or> power d > 25000)
        \<and> frequency d > 0 \<and> (frequency d < 45 \<or> frequency d > 65)"
    by (auto simp add: validate_data_def Let_def)
  have pf: "validate_data (Some d) t = Invalid PowerFactorRange \<longleftrightarrow>
        \<not> (voltage d > 0 \<and> (voltage d < 180 \<or> voltage d > 280))
        \<and> \<not> (current d < 0 \<or> current d > 100)
        \<and> \<not> (power d < 0 \<or> power d > 25000)
        \<and> \<not> (frequency d > 0 \<and> (frequency d < 45 \<or> frequency d > 65))
        \<and> (power_factor d < 0 \<or> power_factor d > 1)"
    by (auto simp add: validate_data_def Let_def)
  have x: "validate_data (Some d) t = Invalid PowerCrossCheck \<longleftrightarrow>
        \<not> (voltage d > 0 \<and> (voltage d < 180 \<or> voltage d > 280))
        \<and> \<not> (current d < 0 \<or> current d > 100)
        \<and> \<not> (power d < 0 \<or> power d > 25000)
        \<and> \<not> (frequency d > 0 \<and> (frequency d < 45 \<or> frequency d > 65))
        \<and> \<not> (power_factor d < 0 \<or> power_factor d > 1)
        \<and> voltage d > 10 \<and> current d > 1 / 100
        \<and> \<bar>power d - voltage d * current d * power_factor d\<bar>
              > 1 / 10 * (voltage d * current d * power_factor d)"
    by (auto simp add: validate_data_def Let_def mult.commute)
  have ok: "validate_data (Some d) t = Valid \<longleftrightarrow>
        \<not> (voltage d > 0 \<and> (voltage d < 180 \<or> voltage d > 280))
        \<and> \<not> (current d < 0 \<or> current d > 100)
        \<and> \<not> (power d < 0 \<or> power d > 25000)
        \<and> \<not> (frequency d > 0 \<and> (frequency d < 45 \<or> frequency d > 65))
        \<and> \<not> (power_factor d < 0 \<or> power_factor d > 1)
        \<and> \<not> (voltage d > 10 \<and> current d > 1 / 100
              \<and> \<bar>power d - voltage d * current d * power_factor d\<bar>
                    > 1 / 10 * (voltage d * current d * power_factor d))"
    by (auto simp add: validate_data_def Let_def mult.commute)
  have hi: "voltage d = 300 \<longrightarrow> validate_data (Some d) t = Invalid VoltageRange"
    by (simp add: v)
  have ex: "voltage d = 230 \<and> current d = 5 \<and> power d = 1150 \<and> power_factor d = 1
        \<and> \<not> (frequency d > 0 \<and> (frequency d < 45 \<or> frequency d > 65)) \<longrightarrow>
        validate_data (Some d) t = Valid"
    by (auto simp add: validate_data_def Let_def)
  from same v c p f pf x ok hi ex show ?thesis
    by blast
qed

theorem validate_data_priority_witness:
  "validate_data
     (Some \<lparr>voltage = 300, current = 5, power = 1150, energy = 0, frequency = 50,
            power_factor = 1, timestamp = 0, daily_energy = 0, daily_cost = 0\<rparr>) TenantA
     = Invalid VoltageRange
   \<and> validate_data
     (Some \<lparr>voltage = 230, current = 5, power = 1150, energy = 0, frequency = 50,
            power_factor = 1, timestamp = 0, daily_energy = 0, daily_cost = 0\<rparr>) TenantA
     = Valid"
  using
    validate_data_priority [of "\<lparr>voltage = 300, current = 5, power = 1150, energy = 0,
      frequency = 50, power_factor = 1, timestamp = 0, daily_energy = 0, daily_cost = 0\<rparr>"
      TenantA TenantA]
    validate_data_priority [of "\<lparr>voltage = 230, current = 5, power = 1150, energy = 0,
      frequency = 50, power_factor = 1, timestamp = 0, daily_energy = 0, daily_cost = 0\<rparr>"
      TenantA TenantA]
  by simp

section \<open>Properties of the scheduler\<close>

lemma update_stats_fields:
  "running (update_stats t r m) = running m"
  "pzem (update_stats t r m) = pzem m"
  "consecutive_errors (update_stats t r m) = consecutive_errors m"
  "max_consecutive_errors (update_stats t r m) = max_consecutive_errors m"
  "last_daily_reset (update_stats t r m) = last_daily_reset m"
  "test_mode (update_stats t r m) = test_mode m"
  "read_count (update_stats t r m) = read_count m"
  "last_reading (update_stats t r m) = last_reading m"
  "cycle_time (update_stats t r m) = cycle_time m"
  by (simp_all add: update_stats_def Let_def)

lemma record_read_outcome:
  "snd (fst (record_read t res m)) =
     (case res of
        Raised \<Rightarrow> Error
      | Returned None \<Rightarrow> Timeout
      | Returned (Some data) \<Rightarrow>
          (if validate_data (Some data) t = Valid then Success else InvalidData))"
  by (simp add: record_read_def Let_def split: call.splits option.splits validation.splits)

lemma record_read_consecutive:
  "consecutive_errors (snd (record_read t res m)) t' =
     (if t' = t then
        (if snd (fst (record_read t res m)) = Success then 0 else consecutive_errors m t + 1)
      else consecutive_errors m t')"
  by (simp add: record_read_def Let_def update_stats_fields
      split: call.splits option.splits validation.splits)

lemma record_read_fields:
  "running (snd (record_read t res m)) = running m"
  "pzem (snd (record_read t res m)) = pzem m"
  "max_consecutive_errors (snd (record_read t res m)) = max_consecutive_errors m"
  "last_daily_reset (snd (record_read t res m)) = last_daily_reset m"
  "test_mode (snd (record_read t res m)) = test_mode m"
  "read_count (snd (record_read t res m)) = read_count m"
  "last_reading (snd (record_read t res m)) = last_reading m"
  "cycle_time (snd (record_read t res m)) = cycle_time m"
  by (simp_all add: record_read_def Let_def update_stats_fields
      split: call.splits option.splits validation.splits)

lemma call_read_fields:
  "running (snd (call_read t p m)) = running m"
  "consecutive_errors (snd (call_read t p m)) = consecutive_errors m"
  "max_consecutive_errors (snd (call_read t p m)) = max_consecutive_errors m"
  "last_daily_reset (snd (call_read t p m)) = last_daily_reset m"
  "test_mode (snd (call_read t p m)) = test_mode m"
  "read_count (snd (call_read t p m)) = read_count m"
  "last_reading (snd (call_read t p m)) = last_reading m"
  "cycle_time (snd (call_read t p m)) = cycle_time m"
  "(pzem (snd (call_read t p m)) = None) = (pzem m = None)"
  by (simp_all add: call_read_def split: option.splits prod.splits)

lemma call_read_Some:
  "pzem m = Some h \<Longrightarrow>
   call_read t p m =
     (Returned (Some (fst (if t = TenantA then read_tenant_a h p else read_tenant_b h p))),
      m\<lparr>pzem := Some (snd (if t = TenantA then read_tenant_a h p else read_tenant_b h p))\<rparr>)"
  by (simp add: call_read_def split: prod.splits)

lemma read_tenant_data_eq:
  "read_tenant_data t p m = record_read t (fst (call_read t p m)) (snd (call_read t p m))"
  by (simp add: read_tenant_data_def split: prod.splits)

lemma read_tenant_data_fields:
  "running (snd (read_tenant_data t p m)) = running m"
  "max_consecutive_errors (snd (read_tenant_data t p m)) = max_consecutive_errors m"
  "last_daily_reset (snd (read_tenant_data t p m)) = last_daily_reset m"
  "test_mode (snd (read_tenant_data t p m)) = test_mode m"
  "read_count (snd (read_tenant_data t p m)) = read_count m"
  "last_reading (snd (read_tenant_data t p m)) = last_reading m"
  "cycle_time (snd (read_tenant_data t p m)) = cycle_time m"
  "(pzem (snd (read_tenant_data t p m)) = None) = (pzem m = None)"
  by (simp_all add: read_tenant_data_eq record_read_fields call_read_fields)

lemma read_tenant_data_consecutive:
  "consecutive_errors (snd (read_tenant_data t p m)) t' =
     (if t' = t then
        (if snd (fst (read_tenant_data t p m)) = Success then 0 else consecutive_errors m t + 1)
      else consecutive_errors m t')"
  by (simp add: read_tenant_data_eq record_read_consecutive call_read_fields)

lemma read_tenant_data_handler:
  "pzem m = Some h \<Longrightarrow>
   pzem (snd (read_tenant_data t p m)) =
     Some (snd (if t = TenantA then read_tenant_a h p else read_tenant_b h p))
   \<and> snd (fst (read_tenant_data t p m)) =
       (if validate_data
             (Some (fst (if t = TenantA then read_tenant_a h p else read_tenant_b h p))) t = Valid
        then Success else InvalidData)"
  by (simp add: read_tenant_data_eq call_read_Some record_read_fields record_read_outcome)

lemma close_handler_events:
  "CountersReset \<notin> set (close_handler m)"
  "Restarting \<notin> set (close_handler m)"
  "close_handler (m\<lparr>pzem := None\<rparr>) = []"
  "close_handler (m\<lparr>consecutive_errors := c\<rparr>) = close_handler m"
  "close_handler (m\<lparr>read_count := n\<rparr>) = close_handler m"
  by (simp_all add: close_handler_def split: option.splits)

lemma try_initialize_simps:
  "try_initialize CtorRaised m = (False, m\<lparr>pzem := None\<rparr>, close_handler m)"
  "try_initialize (Constructed pa pb) m =
     (True, m\<lparr>pzem := Some (snd (read_tenant_b (snd (read_tenant_a new_handler pa)) pb))\<rparr>,
      [])"
  by (simp_all add: try_initialize_def test_connectivity_def Let_def split: prod.splits)

lemma try_initialize_fields:
  "running (fst (snd (try_initialize att m))) = running m"
  "consecutive_errors (fst (snd (try_initialize att m))) = consecutive_errors m"
  "max_consecutive_errors (fst (snd (try_initialize att m))) = max_consecutive_errors m"
  "last_daily_reset (fst (snd (try_initialize att m))) = last_daily_reset m"
  "test_mode (fst (snd (try_initialize att m))) = test_mode m"
  "read_count (fst (snd (try_initialize att m))) = read_count m"
  "last_reading (fst (snd (try_initialize att m))) = last_reading m"
  "cycle_time (fst (snd (try_initialize att m))) = cycle_time m"
  "fst (try_initialize att m) \<Longrightarrow> pzem (fst (snd (try_initialize att m))) \<noteq> None"
  "CountersReset \<notin> set (snd (snd (try_initialize att m)))"
  "Restarting \<notin> set (snd (snd (try_initialize att m)))"
  by (cases att; simp add: try_initialize_simps close_handler_events)+

lemma initialize_attempts_fields:
  "consecutive_errors (fst (initialize_attempts k a d atts m)) = consecutive_errors m
   \<and> max_consecutive_errors (fst (initialize_attempts k a d atts m)) = max_consecutive_errors m
   \<and> last_daily_reset (fst (initialize_attempts k a d atts m)) = last_daily_reset m
   \<and> test_mode (fst (initialize_attempts k a d atts m)) = test_mode m
   \<and> read_count (fst (initialize_attempts k a d atts m)) = read_count m
   \<and> last_reading (fst (initialize_attempts k a d atts m)) = last_reading m
   \<and> cycle_time (fst (initialize_attempts k a d atts m)) = cycle_time m
   \<and> (running (fst (initialize_attempts k a d atts m)) \<longrightarrow>
        running m \<and> pzem (fst (initialize_attempts k a d atts m)) \<noteq> None)
   \<and> CountersReset \<notin> set (snd (initialize_attempts k a d atts m))
   \<and> Restarting \<notin> set (snd (initialize_attempts k a d atts m))"
proof (induction k arbitrary: a d m)
  case 0
  show ?case by simp
next
  case (Suc k)
  obtain ok m1 ev1 where t: "try_initialize (atts a) m = (ok, m1, ev1)"
    by (cases "try_initialize (atts a) m")
  have f: "running m1 = running m" "consecutive_errors m1 = consecutive_errors m"
    "max_consecutive_errors m1 = max_consecutive_errors m"
    "last_daily_reset m1 = last_daily_reset m" "test_mode m1 = test_mode m"
    "read_count m1 = read_count m" "last_reading m1 = last_reading m"
    "cycle_time m1 = cycle_time m" "ok \<Longrightarrow> pzem m1 \<noteq> None"
    "CountersReset \<notin> set ev1" "Restarting \<notin> set ev1"
    using try_initialize_fields [of "atts a" m] t by simp_all
  show ?case
  proof (cases ok)
    case True
    then show ?thesis using t f by simp
  next
    case False
    obtain m2 ev2 where r2: "initialize_attempts k (Suc a) (d * 2) atts m1 = (m2, ev2)"
      by (cases "initialize_attempts k (Suc a) (d * 2) atts m1")
    obtain m3 ev3 where r3: "initialize_attempts k (Suc a) d atts m1 = (m3, ev3)"
      by (cases "initialize_attempts k (Suc a) d atts m1")
    show ?thesis
      using False t f r2 r3 Suc.IH [of "Suc a" "d * 2" m1] Suc.IH [of "Suc a" d m1]
      by simp
  qed
qed

lemma restart_fields:
  "consecutive_errors (fst (restart_pzem_handler atts m)) = (\<lambda>t. 0)
   \<and> max_consecutive_errors (fst (restart_pzem_handler atts m)) = max_consecutive_errors m
   \<and> last_daily_reset (fst (restart_pzem_handler atts m)) = last_daily_reset m
   \<and> test_mode (fst (restart_pzem_handler atts m)) = test_mode m
   \<and> read_count (fst (restart_pzem_handler atts m)) = read_count m
   \<and> last_reading (fst (restart_pzem_handler atts m)) = last_reading m
   \<and> cycle_time (fst (restart_pzem_handler atts m)) = cycle_time m
   \<and> (running (fst (restart_pzem_handler atts m)) \<longrightarrow>
        running m \<and> pzem (fst (restart_pzem_handler atts m)) \<noteq> None)
   \<and> CountersReset \<notin> set (snd (restart_pzem_handler atts m))
   \<and> Restarting \<in> set (snd (restart_pzem_handler atts m))"
proof -
  obtain m1 ev where i:
    "initialize_attempts 3 0 2 atts (m\<lparr>consecutive_errors := (\<lambda>t. 0)\<rparr>) = (m1, ev)"
    by (cases "initialize_attempts 3 0 2 atts (m\<lparr>consecutive_errors := (\<lambda>t. 0)\<rparr>)")
  show ?thesis
    using i initialize_attempts_fields [of 3 0 2 atts "m\<lparr>consecutive_errors := (\<lambda>t. 0)\<rparr>"]
    by (simp add: restart_pzem_handler_def initialize_pzem_def close_handler_events)
qed

lemma initialize_pzem_outcomes:
  "(atts 0 = Constructed pa pb \<longrightarrow>
      initialize_pzem atts m = (fst (snd (try_initialize (atts 0) m)), []))
   \<and> (atts 0 = CtorRaised \<and> atts 1 = Constructed pa pb \<longrightarrow>
      initialize_pzem atts m =
        (fst (snd (try_initialize (atts 1) m)), close_handler m @ [Sleep 2]))
   \<and> (atts 0 = CtorRaised \<and> atts 1 = CtorRaised \<and> atts 2 = Constructed pa pb \<longrightarrow>
      initialize_pzem atts m =
        (fst (snd (try_initialize (atts 2) m)), close_handler m @ [Sleep 2, Sleep 4]))
   \<and> (atts 0 = CtorRaised \<and> atts 1 = CtorRaised \<and> atts 2 = CtorRaised \<longrightarrow>
      initialize_pzem atts m = (m\<lparr>pzem := None, running := False\<rparr>,
        close_handler m @ [Sleep 2, Sleep 4, InitFailed]))"
  by (simp add: initialize_pzem_def eval_nat_numeral try_initialize_simps
      close_handler_events)

lemma readings_cases:
  "readings e m =
     (if \<not> due e m then (False, m, [])
      else if \<not> restart_needed m then (False, polls e (m\<lparr>read_count := read_count m + 1\<rparr>), [])
      else if \<not> running (fst (restart_pzem_handler (inits e) (m\<lparr>read_count := read_count m + 1\<rparr>)))
        then (True, fst (restart_pzem_handler (inits e) (m\<lparr>read_count := read_count m + 1\<rparr>)),
              snd (restart_pzem_handler (inits e) (m\<lparr>read_count := read_count m + 1\<rparr>)))
      else (False,
            polls e (fst (restart_pzem_handler (inits e) (m\<lparr>read_count := read_count m + 1\<rparr>))),
            snd (restart_pzem_handler (inits e) (m\<lparr>read_count := read_count m + 1\<rparr>))))"
  by (simp add: readings_def due_def restart_needed_def polls_def SENSOR_READ_INTERVAL_def
      should_restart_handler_def Let_def case_prod_beta)

lemma polls_fields:
  "running (polls e m) = running m"
  "max_consecutive_errors (polls e m) = max_consecutive_errors m"
  "last_daily_reset (polls e m) = last_daily_reset m"
  "test_mode (polls e m) = test_mode m"
  "read_count (polls e m) = read_count m"
  "last_reading (polls e m) = current_time e"
  "cycle_time (polls e m) = Some (cycle_ms e)"
  "(pzem (polls e m) = None) = (pzem m = None)"
  by (simp_all add: polls_def read_tenant_data_fields)

lemma readings_summary:
  "last_daily_reset (fst (snd (readings e m))) = last_daily_reset m
   \<and> test_mode (fst (snd (readings e m))) = test_mode m
   \<and> max_consecutive_errors (fst (snd (readings e m))) = max_consecutive_errors m
   \<and> CountersReset \<notin> set (snd (snd (readings e m)))
   \<and> (Restarting \<in> set (snd (snd (readings e m))) \<longleftrightarrow> due e m \<and> restart_needed m)
   \<and> (fst (readings e m) \<longrightarrow> \<not> running (fst (snd (readings e m))) \<and> due e m \<and> restart_needed m)
   \<and> (\<not> fst (readings e m) \<and> pzem m \<noteq> None \<longrightarrow> pzem (fst (snd (readings e m))) \<noteq> None)
   \<and> (\<not> fst (readings e m) \<longrightarrow> running (fst (snd (readings e m))) = running m)
   \<and> (\<not> fst (readings e m) \<and> due e m \<longrightarrow>
        last_reading (fst (snd (readings e m))) = current_time e
        \<and> cycle_time (fst (snd (readings e m))) = Some (cycle_ms e))
   \<and> (\<not> due e m \<longrightarrow> readings e m = (False, m, []))"
  using restart_fields [of "inits e" "m\<lparr>read_count := read_count m + 1\<rparr>"]
  by (simp add: readings_cases polls_fields del: not_None_eq)

lemma should_reset_iff:
  "should_reset_daily_counters m e \<longleftrightarrow>
     reset_hour e = 0 \<and> reset_minute e < 5 \<and> reset_time e - last_daily_reset m > 21600"
  by (auto simp add: should_reset_daily_counters_def Let_def)

lemma daily_reset_cases:
  "daily_reset e m =
     (if should_reset_daily_counters m e \<and> pzem m \<noteq> None
      then (m\<lparr>pzem := Some (reset_daily_counters (the (pzem m))),
               last_daily_reset := current_time e\<rparr>, [CountersReset])
      else (m, []))"
  by (simp add: daily_reset_def call_reset_def split: option.splits)

lemma test_mode_reset_off: "\<not> test_mode m \<Longrightarrow> test_mode_reset m = (m, [])"
  by (simp add: test_mode_reset_def)

lemma cycle_cases:
  "cycle e m =
     (if fst (readings e m) then (LoopBreak, snd (readings e m))
      else
        ((case cycle_time (fst (test_mode_reset (fst (daily_reset e (fst (snd (readings e m))))))) of
           None \<Rightarrow> LoopRaise
         | Some t \<Rightarrow> Continue),
         fst (test_mode_reset (fst (daily_reset e (fst (snd (readings e m)))))),
         snd (snd (readings e m)) @ snd (daily_reset e (fst (snd (readings e m))))
           @ snd (test_mode_reset (fst (daily_reset e (fst (snd (readings e m))))))))"
  by (cases "readings e m")
    (simp add: cycle_def case_prod_beta split: option.splits bool.splits)

lemma cycle_restarting:
  "Restarting \<in> set (snd (snd (cycle e m))) \<longleftrightarrow> due e m \<and> restart_needed m"
proof -
  have d: "Restarting \<notin> set (snd (daily_reset e m'))" for m'
    by (simp add: daily_reset_cases)
  have t: "Restarting \<notin> set (snd (test_mode_reset m'))" for m'
    by (simp add: test_mode_reset_def call_reset_def split: option.splits)
  show ?thesis
    using readings_summary [of e m] by (simp add: cycle_cases d t)
qed

lemma cycle_break:
  "fst (cycle e m) = LoopBreak \<longleftrightarrow> fst (readings e m)"
  by (simp add: cycle_cases split: option.splits)

lemma cycle_continue:
  assumes "fst (cycle e m) = Continue" "pzem m \<noteq> None" "\<not> test_mode m"
  shows "pzem (fst (snd (cycle e m))) \<noteq> None"
    and "\<not> test_mode (fst (snd (cycle e m)))"
    and "last_daily_reset (fst (snd (cycle e m))) =
           (if should_reset_daily_counters m e then current_time e else last_daily_reset m)"
    and "count_list (snd (snd (cycle e m))) CountersReset =
           (if should_reset_daily_counters m e then 1 else 0)"
    and "running (fst (snd (cycle e m))) = running m"
proof -
  let ?m1 = "fst (snd (readings e m))"
  have nb: "\<not> fst (readings e m)"
    using assms(1) by (auto simp add: cycle_cases split: if_splits)
  have r: "last_daily_reset ?m1 = last_daily_reset m" "test_mode ?m1 = test_mode m"
    "CountersReset \<notin> set (snd (snd (readings e m)))" "pzem ?m1 \<noteq> None"
    "running ?m1 = running m"
    using readings_summary [of e m] nb assms(2) by simp_all
  have s: "should_reset_daily_counters ?m1 e = should_reset_daily_counters m e"
    by (simp add: should_reset_iff r)
  have t: "\<not> test_mode (fst (daily_reset e ?m1))"
    using r assms(3) by (simp add: daily_reset_cases)
  have c: "count_list (snd (snd (readings e m))) CountersReset = 0"
    using r(3) by (simp add: count_list_0_iff)
  show "pzem (fst (snd (cycle e m))) \<noteq> None"
    using nb r t by (simp add: cycle_cases test_mode_reset_off daily_reset_cases)
  show "\<not> test_mode (fst (snd (cycle e m)))"
    using nb r t by (simp add: cycle_cases test_mode_reset_off)
  show "last_daily_reset (fst (snd (cycle e m))) =
           (if should_reset_daily_counters m e then current_time e else last_daily_reset m)"
    using nb r t s by (simp add: cycle_cases test_mode_reset_off daily_reset_cases)
  show "count_list (snd (snd (cycle e m))) CountersReset =
           (if should_reset_daily_counters m e then 1 else 0)"
    using nb r t s c by (simp add: cycle_cases test_mode_reset_off daily_reset_cases)
  show "running (fst (snd (cycle e m))) = running m"
    using nb r t by (simp add: cycle_cases test_mode_reset_off daily_reset_cases)
qed

lemma run_cycles_Cons_Continue:
  assumes "fst (run_cycles (e # es) m) = Continue"
  shows "running m" "fst (cycle e m) = Continue"
    "fst (run_cycles es (fst (snd (cycle e m)))) = Continue"
    "snd (snd (run_cycles (e # es) m)) =
       snd (snd (cycle e m)) @ snd (snd (run_cycles es (fst (snd (cycle e m)))))"
    "fst (snd (run_cycles (e # es) m)) = fst (snd (run_cycles es (fst (snd (cycle e m)))))"
proof -
  show r: "running m"
    using assms by (auto split: if_splits)
  obtain c m1 ev1 where cy: "cycle e m = (c, m1, ev1)"
    by (cases "cycle e m")
  obtain c2 m2 ev2 where rc: "run_cycles es m1 = (c2, m2, ev2)"
    by (cases "run_cycles es m1")
  have c: "c = Continue"
    using assms r cy by (cases c) simp_all
  show "fst (cycle e m) = Continue"
    using c cy by simp
  show "fst (run_cycles es (fst (snd (cycle e m)))) = Continue"
    using assms r cy c rc by simp
  show "snd (snd (run_cycles (e # es) m)) =
       snd (snd (cycle e m)) @ snd (snd (run_cycles es (fst (snd (cycle e m)))))"
    using r cy c rc by simp
  show "fst (snd (run_cycles (e # es) m)) = fst (snd (run_cycles es (fst (snd (cycle e m)))))"
    using r cy c rc by simp
qed

lemma run_cycles_no_reset:
  assumes "fst (run_cycles es m) = Continue" "pzem m \<noteq> None" "\<not> test_mode m"
    and "\<forall>e\<in>set es. reset_time e - last_daily_reset m \<le> 21600"
  shows "count_list (snd (snd (run_cycles es m))) CountersReset = 0"
  using assms
proof (induction es arbitrary: m)
  case Nil
  show ?case by simp
next
  case (Cons e es)
  note rc = run_cycles_Cons_Continue [OF Cons.prems(1)]
  have ns: "\<not> should_reset_daily_counters m e"
    using Cons.prems(4) by (simp add: should_reset_iff)
  note cc = cycle_continue [OF rc(2) Cons.prems(2) Cons.prems(3)]
  have l: "last_daily_reset (fst (snd (cycle e m))) = last_daily_reset m"
    using cc(3) ns by simp
  have "count_list (snd (snd (run_cycles es (fst (snd (cycle e m)))))) CountersReset = 0"
    using Cons.prems(4) l by (intro Cons.IH [OF rc(3) cc(1) cc(2)]) simp
  then show ?case
    using cc(4) ns unfolding rc(4) by simp
qed

lemma run_cycles_one_reset:
  assumes "fst (run_cycles (e # es) m) = Continue" "pzem m \<noteq> None" "\<not> test_mode m"
    and "\<forall>x\<in>set (e # es). reset_hour x = 0 \<and> reset_minute x < 5
           \<and> reset_time x - current_time e \<le> 21600"
    and "reset_time e - last_daily_reset m > 21600"
  shows "count_list (snd (snd (run_cycles (e # es) m))) CountersReset = 1"
proof -
  note rc = run_cycles_Cons_Continue [OF assms(1)]
  have s: "should_reset_daily_counters m e"
    using assms(4,5) by (simp add: should_reset_iff)
  note cc = cycle_continue [OF rc(2) assms(2) assms(3)]
  have l: "last_daily_reset (fst (snd (cycle e m))) = current_time e"
    using cc(3) s by simp
  have "count_list (snd (snd (run_cycles es (fst (snd (cycle e m)))))) CountersReset = 0"
    using assms(4) l by (intro run_cycles_no_reset [OF rc(3) cc(1) cc(2)]) simp
  then show ?thesis
    using cc(4) s unfolding rc(4) by simp
qed

lemma run_cycles_stopped: "\<not> running m \<Longrightarrow> fst (snd (run_cycles es m)) = m \<and> snd (snd (run_cycles es m)) = []"
  by (cases es) simp_all

text \<open>
  Claim C9. When the frame of a poll decodes, \<open>_read_tenant_data\<close> obtains the data
  from \<open>read_tenant_a\<close> or \<open>read_tenant_b\<close>, which have integrated the energy and set
  the time stamp, before it calls \<open>_validate_data\<close>: whatever the validator says,
  the handler afterwards is the one the read left, with the increment added to the
  lifetime and daily accumulators. So a decoded reading classified invalid has been
  integrated, and nothing takes the increment back.
\<close>

theorem integration_precedes_validation:
  "(pzem m = Some h \<and> rx p = Collected bs
      \<and> read_response bs (address_a h) (stamp p) = Inr data \<longrightarrow>
      pzem (snd (read_tenant_data TenantA p m)) = Some (snd (read_tenant_a h p))
      \<and> snd (fst (read_tenant_data TenantA p m)) =
          (if validate_data (Some (fst (read_tenant_a h p))) TenantA = Valid
           then Success else InvalidData)
      \<and> last_reading_a (snd (read_tenant_a h p)) = clock p
      \<and> energy_a (snd (read_tenant_a h p)) =
          energy_a h + (if last_reading_a h > 0 \<and> 0 < clock p - last_reading_a h
                           \<and> clock p - last_reading_a h \<le> 10
                        then power data * real_of_int (clock p - last_reading_a h) / 3600 / 1000
                        else 0)
      \<and> daily_energy_a (snd (read_tenant_a h p)) =
          daily_energy_a h + (if last_reading_a h > 0 \<and> 0 < clock p - last_reading_a h
                           \<and> clock p - last_reading_a h \<le> 10
                        then power data * real_of_int (clock p - last_reading_a h) / 3600 / 1000
                        else 0))
   \<and> (pzem m = Some h \<and> rx p = Collected bs
      \<and> read_response bs (address_b h) (stamp p) = Inr data \<longrightarrow>
      pzem (snd (read_tenant_data TenantB p m)) = Some (snd (read_tenant_b h p))
      \<and> snd (fst (read_tenant_data TenantB p m)) =
          (if validate_data (Some (fst (read_tenant_b h p))) TenantB = Valid
           then Success else InvalidData)
      \<and> last_reading_b (snd (read_tenant_b h p)) = clock p
      \<and> energy_b (snd (read_tenant_b h p)) =
          energy_b h + (if last_reading_b h > 0 \<and> 0 < clock p - last_reading_b h
                           \<and> clock p - last_reading_b h \<le> 10
                        then power data * real_of_int (clock p - last_reading_b h) / 3600 / 1000
                        else 0)
      \<and> daily_energy_b (snd (read_tenant_b h p)) =
          daily_energy_b h + (if last_reading_b h > 0 \<and> 0 < clock p - last_reading_b h
                           \<and> clock p - last_reading_b h \<le> 10
                        then power data * real_of_int (clock p - last_reading_b h) / 3600 / 1000
                        else 0))"
proof (intro conjI impI)
  assume a: "pzem m = Some h \<and> rx p = Collected bs
      \<and> read_response bs (address_a h) (stamp p) = Inr data"
  then have pz: "pzem m = Some h" and rx: "rx p = Collected bs"
    and rr: "read_response bs (address_a h) (stamp p) = Inr data"
    by simp_all
  note s = read_tenant_a_success [OF rx rr]
  note d = read_tenant_data_handler [OF pz, of TenantA p]
  show "pzem (snd (read_tenant_data TenantA p m)) = Some (snd (read_tenant_a h p))"
    using d by simp
  show "snd (fst (read_tenant_data TenantA p m)) =
          (if validate_data (Some (fst (read_tenant_a h p))) TenantA = Valid
           then Success else InvalidData)"
    using d by simp
  show "last_reading_a (snd (read_tenant_a h p)) = clock p"
    by (rule s(3))
  show "energy_a (snd (read_tenant_a h p)) =
          energy_a h + (if last_reading_a h > 0 \<and> 0 < clock p - last_reading_a h
                           \<and> clock p - last_reading_a h \<le> 10
                        then power data * real_of_int (clock p - last_reading_a h) / 3600 / 1000
                        else 0)"
    by (rule s(1))
  show "daily_energy_a (snd (read_tenant_a h p)) =
          daily_energy_a h + (if last_reading_a h > 0 \<and> 0 < clock p - last_reading_a h
                           \<and> clock p - last_reading_a h \<le> 10
                        then power data * real_of_int (clock p - last_reading_a h) / 3600 / 1000
                        else 0)"
    by (rule s(2))
next
  assume b: "pzem m = Some h \<and> rx p = Collected bs
      \<and> read_response bs (address_b h) (stamp p) = Inr data"
  then have pz: "pzem m = Some h" and rx: "rx p = Collected bs"
    and rr: "read_response bs (address_b h) (stamp p) = Inr data"
    by simp_all
  note s = read_tenant_b_success [OF rx rr]
  note d = read_tenant_data_handler [OF pz, of TenantB p]
  show "pzem (snd (read_tenant_data TenantB p m)) = Some (snd (read_tenant_b h p))"
    using d by simp
  show "snd (fst (read_tenant_data TenantB p m)) =
          (if validate_data (Some (fst (read_tenant_b h p))) TenantB = Valid
           then Success else InvalidData)"
    using d by simp
  show "last_reading_b (snd (read_tenant_b h p)) = clock p"
    by (rule s(3))
  show "energy_b (snd (read_tenant_b h p)) =
          energy_b h + (if last_reading_b h > 0 \<and> 0 < clock p - last_reading_b h
                           \<and> clock p - last_reading_b h \<le> 10
                        then power data * real_of_int (clock p - last_reading_b h) / 3600 / 1000
                        else 0)"
    by (rule s(1))
  show "daily_energy_b (snd (read_tenant_b h p)) =
          daily_energy_b h + (if last_reading_b h > 0 \<and> 0 < clock p - last_reading_b h
                           \<and> clock p - last_reading_b h \<le> 10
                        then power data * real_of_int (clock p - last_reading_b h) / 3600 / 1000
                        else 0)"
    by (rule s(2))
qed

theorem integration_precedes_validation_witness:
  "pzem invalid_sample_monitor = Some (new_handler\<lparr>last_reading_a := 100\<rparr>)
   \<and> rx (poll_of (synthetic_response 1 example_registers) 105)
       = Collected (synthetic_response 1 example_registers)
   \<and> read_response (synthetic_response 1 example_registers)
        (address_a (new_handler\<lparr>last_reading_a := 100\<rparr>))
        (stamp (poll_of (synthetic_response 1 example_registers) 105))
       = Inr \<lparr>voltage = 220, current = 3 / 2, power = 50, energy = 0, frequency = 50,
              power_factor = 0, timestamp = 105\<rparr>
   \<and> snd (fst (read_tenant_data TenantA (poll_of (synthetic_response 1 example_registers) 105)
        invalid_sample_monitor)) = InvalidData
   \<and> energy_a (the (pzem (snd (read_tenant_data TenantA
        (poll_of (synthetic_response 1 example_registers) 105) invalid_sample_monitor))))
       = 1 / 14400
   \<and> daily_energy_a (the (pzem (snd (read_tenant_data TenantA
        (poll_of (synthetic_response 1 example_registers) 105) invalid_sample_monitor))))
       = 1 / 14400"
proof -
  have pz: "pzem invalid_sample_monitor = Some (new_handler\<lparr>last_reading_a := 100\<rparr>)"
    by (simp add: invalid_sample_monitor_def init_monitor_def)
  have rx: "rx (poll_of (synthetic_response 1 example_registers) 105)
       = Collected (synthetic_response 1 example_registers)"
    by (simp add: poll_of_def)
  have rr: "read_response (synthetic_response 1 example_registers)
        (address_a (new_handler\<lparr>last_reading_a := 100\<rparr>))
        (stamp (poll_of (synthetic_response 1 example_registers) 105))
       = Inr \<lparr>voltage = 220, current = 3 / 2, power = 50, energy = 0, frequency = 50,
              power_factor = 0, timestamp = 105\<rparr>"
    by code_simp
  have out: "snd (fst (read_tenant_data TenantA
        (poll_of (synthetic_response 1 example_registers) 105) invalid_sample_monitor))
       = InvalidData"
    by code_simp
  have h: "energy_a (new_handler\<lparr>last_reading_a := 100\<rparr>) = 0"
    "daily_energy_a (new_handler\<lparr>last_reading_a := 100\<rparr>) = 0"
    "last_reading_a (new_handler\<lparr>last_reading_a := 100\<rparr>) = 100"
    "clock (poll_of (synthetic_response 1 example_registers) 105) = 105"
    by (simp_all add: new_handler_def poll_of_def)
  show ?thesis
    using pz rx rr out h
      integration_precedes_validation [of invalid_sample_monitor
        "new_handler\<lparr>last_reading_a := 100\<rparr>"
        "poll_of (synthetic_response 1 example_registers) 105"
        "synthetic_response 1 example_registers"
        "\<lparr>voltage = 220, current = 3 / 2, power = 50, energy = 0, frequency = 50,
              power_factor = 0, timestamp = 105\<rparr>"]
    by simp
qed

text \<open>
  Claim C5. \<open>_should_reset_daily_counters\<close> holds exactly when the local hour is 0,
  the minute is below 5 and more than six hours have passed since the last reset. A
  turn of the loop that runs to its end resets the daily counters exactly when
  this holds, and the reset sets both daily accumulators to 0 and records the time
  of the turn. Consequently, in any run of turns (five, for instance) that all fall
  into the window and within six hours of the first one, the first being more than
  six hours after the last reset, the daily counters are reset exactly once.
\<close>

theorem daily_reset_once:
  "(should_reset_daily_counters m e \<longleftrightarrow>
      reset_hour e = 0 \<and> reset_minute e < 5 \<and> reset_time e - last_daily_reset m > 6 * 3600)
   \<and> (fst (cycle e m) = Continue \<and> pzem m \<noteq> None \<and> \<not> test_mode m \<longrightarrow>
        count_list (snd (snd (cycle e m))) CountersReset =
          (if should_reset_daily_counters m e then 1 else 0)
        \<and> last_daily_reset (fst (snd (cycle e m))) =
          (if should_reset_daily_counters m e then current_time e else last_daily_reset m))
   \<and> (should_reset_daily_counters m e \<and> pzem m = Some h \<longrightarrow>
        daily_reset e m =
          (m\<lparr>pzem := Some (h\<lparr>daily_energy_a := 0, daily_energy_b := 0\<rparr>),
             last_daily_reset := current_time e\<rparr>, [CountersReset]))
   \<and> (fst (run_cycles (e # es) m) = Continue \<and> pzem m \<noteq> None \<and> \<not> test_mode m
        \<and> (\<forall>x\<in>set (e # es). reset_hour x = 0 \<and> reset_minute x < 5
               \<and> reset_time x - current_time e \<le> 6 * 3600)
        \<and> reset_time e - last_daily_reset m > 6 * 3600 \<longrightarrow>
        count_list (snd (snd (run_cycles (e # es) m))) CountersReset = 1)"
proof (intro conjI impI)
  show "should_reset_daily_counters m e \<longleftrightarrow>
      reset_hour e = 0 \<and> reset_minute e < 5 \<and> reset_time e - last_daily_reset m > 6 * 3600"
    by (simp add: should_reset_iff)
next
  assume a: "fst (cycle e m) = Continue \<and> pzem m \<noteq> None \<and> \<not> test_mode m"
  then have c: "fst (cycle e m) = Continue" and p: "pzem m \<noteq> None" and t: "\<not> test_mode m"
    by simp_all
  show "count_list (snd (snd (cycle e m))) CountersReset =
          (if should_reset_daily_counters m e then 1 else 0)"
    by (rule cycle_continue(4) [OF c p t])
  show "last_daily_reset (fst (snd (cycle e m))) =
          (if should_reset_daily_counters m e then current_time e else last_daily_reset m)"
    by (rule cycle_continue(3) [OF c p t])
next
  assume "should_reset_daily_counters m e \<and> pzem m = Some h"
  then show "daily_reset e m =
          (m\<lparr>pzem := Some (h\<lparr>daily_energy_a := 0, daily_energy_b := 0\<rparr>),
             last_daily_reset := current_time e\<rparr>, [CountersReset])"
    by (simp add: daily_reset_cases reset_daily_counters_def)
next
  assume a: "fst (run_cycles (e # es) m) = Continue \<and> pzem m \<noteq> None \<and> \<not> test_mode m
        \<and> (\<forall>x\<in>set (e # es). reset_hour x = 0 \<and> reset_minute x < 5
               \<and> reset_time x - current_time e \<le> 6 * 3600)
        \<and> reset_time e - last_daily_reset m > 6 * 3600"
  then have c: "fst (run_cycles (e # es) m) = Continue" and p: "pzem m \<noteq> None"
    and t: "\<not> test_mode m"
    and w: "\<forall>x\<in>set (e # es). reset_hour x = 0 \<and> reset_minute x < 5
               \<and> reset_time x - current_time e \<le> 21600"
    and f: "reset_time e - last_daily_reset m > 21600"
    by simp_all
  show "count_list (snd (snd (run_cycles (e # es) m))) CountersReset = 1"
    by (rule run_cycles_one_reset [OF c p t w f])
qed

theorem daily_reset_once_witness:
  "length five_ticks = 5
   \<and> fst (run_cycles five_ticks started_monitor) = Continue
   \<and> count_list (snd (snd (run_cycles five_ticks started_monitor))) CountersReset = 1"
proof -
  have ft: "five_ticks =
      window_tick 86460 # map window_tick [86461, 86462, 86463, 86464]"
    by (simp add: five_ticks_def)
  have c: "fst (run_cycles (window_tick 86460 # map window_tick [86461, 86462, 86463, 86464])
      started_monitor) = Continue"
    unfolding ft [symmetric] by code_simp
  have p: "pzem started_monitor \<noteq> None" "\<not> test_mode started_monitor"
    "last_daily_reset started_monitor = 0"
    by (simp_all add: started_monitor_def init_monitor_def)
  have w: "\<forall>x\<in>set (window_tick 86460 # map window_tick [86461, 86462, 86463, 86464]).
      reset_hour x = 0 \<and> reset_minute x < 5
      \<and> reset_time x - current_time (window_tick 86460) \<le> 6 * 3600"
    by (simp add: window_tick_def)
  have f: "reset_time (window_tick 86460) - last_daily_reset started_monitor > 6 * 3600"
    by (simp add: window_tick_def p)
  have "count_list (snd (snd (run_cycles
      (window_tick 86460 # map window_tick [86461, 86462, 86463, 86464]) started_monitor)))
      CountersReset = 1"
    using c p(1,2) w f
      daily_reset_once [where m = started_monitor and e = "window_tick 86460"
        and es = "map window_tick [86461, 86462, 86463, 86464]"]
    by blast
  then show ?thesis
    using c by (simp add: ft)
qed

subsection \<open>Fault streaks and the restart of the handler\<close>

lemma restart_outcomes:
  "consecutive_errors (fst (restart_pzem_handler atts m)) TenantA = 0
   \<and> consecutive_errors (fst (restart_pzem_handler atts m)) TenantB = 0
   \<and> (atts 0 \<noteq> CtorRaised \<longrightarrow>
        snd (restart_pzem_handler atts m) = Restarting # close_handler m
        \<and> running (fst (restart_pzem_handler atts m)) = running m
        \<and> pzem (fst (restart_pzem_handler atts m)) \<noteq> None)
   \<and> (atts 0 = CtorRaised \<and> atts 1 \<noteq> CtorRaised \<longrightarrow>
        snd (restart_pzem_handler atts m) =
          Restarting # close_handler m @ close_handler m @ [Sleep 2]
        \<and> running (fst (restart_pzem_handler atts m)) = running m
        \<and> pzem (fst (restart_pzem_handler atts m)) \<noteq> None)
   \<and> (atts 0 = CtorRaised \<and> atts 1 = CtorRaised \<and> atts 2 \<noteq> CtorRaised \<longrightarrow>
        snd (restart_pzem_handler atts m) =
          Restarting # close_handler m @ close_handler m @ [Sleep 2, Sleep 4]
        \<and> running (fst (restart_pzem_handler atts m)) = running m
        \<and> pzem (fst (restart_pzem_handler atts m)) \<noteq> None)
   \<and> (atts 0 = CtorRaised \<and> atts 1 = CtorRaised \<and> atts 2 = CtorRaised \<longrightarrow>
        snd (restart_pzem_handler atts m) =
          Restarting # close_handler m @ close_handler m @ [Sleep 2, Sleep 4, InitFailed]
        \<and> \<not> running (fst (restart_pzem_handler atts m))
        \<and> pzem (fst (restart_pzem_handler atts m)) = None)"
proof -
  let ?m0 = "m\<lparr>consecutive_errors := (\<lambda>t. 0)\<rparr>"
  have r: "restart_pzem_handler atts m =
      (fst (initialize_pzem atts ?m0),
       Restarting # close_handler m @ snd (initialize_pzem atts ?m0))"
    by (simp add: restart_pzem_handler_def case_prod_beta)
  have z: "consecutive_errors (fst (restart_pzem_handler atts m)) = (\<lambda>t. 0)"
    using restart_fields [of atts m] by simp
  have c0: "atts 0 \<noteq> CtorRaised \<Longrightarrow>
      initialize_pzem atts ?m0 = (fst (snd (try_initialize (atts 0) ?m0)), [])"
    using initialize_pzem_outcomes [of atts _ _ ?m0] by (cases "atts 0") simp_all
  have c1: "atts 0 = CtorRaised \<Longrightarrow> atts 1 \<noteq> CtorRaised \<Longrightarrow>
      initialize_pzem atts ?m0 =
        (fst (snd (try_initialize (atts 1) ?m0)), close_handler m @ [Sleep 2])"
    using initialize_pzem_outcomes [of atts _ _ ?m0]
    by (cases "atts 1") (simp_all add: close_handler_events)
  have c2: "atts 0 = CtorRaised \<Longrightarrow> atts 1 = CtorRaised \<Longrightarrow> atts 2 \<noteq> CtorRaised \<Longrightarrow>
      initialize_pzem atts ?m0 =
        (fst (snd (try_initialize (atts 2) ?m0)), close_handler m @ [Sleep 2, Sleep 4])"
    using initialize_pzem_outcomes [of atts _ _ ?m0]
    by (cases "atts 2") (simp_all add: close_handler_events)
  have c3: "atts 0 = CtorRaised \<Longrightarrow> atts 1 = CtorRaised \<Longrightarrow> atts 2 = CtorRaised \<Longrightarrow>
      initialize_pzem atts ?m0 = (?m0\<lparr>pzem := None, running := False\<rparr>,
        close_handler m @ [Sleep 2, Sleep 4, InitFailed])"
    using initialize_pzem_outcomes [of atts _ _ ?m0] by (simp add: close_handler_events)
  have ok: "att \<noteq> CtorRaised \<Longrightarrow>
      running (fst (snd (try_initialize att ?m0))) = running m
      \<and> pzem (fst (snd (try_initialize att ?m0))) \<noteq> None" for att
    by (cases att) (simp_all add: try_initialize_simps)
  show ?thesis
    using z c0 c1 c2 c3 ok [of "atts 0"] ok [of "atts 1"] ok [of "atts 2"]
    by (simp add: r del: not_None_eq)
qed

lemma daily_reset_fields:
  "running (fst (daily_reset e m)) = running m"
  "last_reading (fst (daily_reset e m)) = last_reading m"
  "cycle_time (fst (daily_reset e m)) = cycle_time m"
  "consecutive_errors (fst (daily_reset e m)) = consecutive_errors m"
  by (simp_all add: daily_reset_cases)

lemma test_mode_reset_fields:
  "running (fst (test_mode_reset m)) = running m"
  "last_reading (fst (test_mode_reset m)) = last_reading m"
  "cycle_time (fst (test_mode_reset m)) = cycle_time m"
  "consecutive_errors (fst (test_mode_reset m)) = consecutive_errors m"
  by (simp_all add: test_mode_reset_def call_reset_def split: option.splits)

lemma cycle_after_restart:
  assumes "due e m" "restart_needed m"
  shows "\<not> running (fst (restart_pzem_handler (inits e) (m\<lparr>read_count := read_count m + 1\<rparr>)))
           \<longrightarrow> fst (cycle e m) = LoopBreak \<and> \<not> running (fst (snd (cycle e m)))"
    and "running (fst (restart_pzem_handler (inits e) (m\<lparr>read_count := read_count m + 1\<rparr>)))
           \<longrightarrow> fst (cycle e m) = Continue \<and> running (fst (snd (cycle e m)))
               \<and> last_reading (fst (snd (cycle e m))) = current_time e"
  using assms
  by (simp_all add: cycle_cases readings_cases daily_reset_fields test_mode_reset_fields
      polls_fields)

text \<open>
  The counts after a turn whose readings are due and which does not restart: each
  is what \<open>_read_tenant_data\<close> made of it for the poll of its meter.
\<close>

lemma cycle_counters:
  assumes "due e m" "\<not> restart_needed m"
  shows "consecutive_errors (fst (snd (cycle e m))) TenantA =
           (if snd (fst (read_tenant_data TenantA (poll_a e)
                  (m\<lparr>read_count := read_count m + 1\<rparr>))) = Success
            then 0 else consecutive_errors m TenantA + 1)"
    and "consecutive_errors (fst (snd (cycle e m))) TenantB =
           (if snd (fst (read_tenant_data TenantB (poll_b e)
                  (snd (read_tenant_data TenantA (poll_a e)
                    (m\<lparr>read_count := read_count m + 1\<rparr>))))) = Success
            then 0 else consecutive_errors m TenantB + 1)"
  using assms
  by (simp_all add: cycle_cases readings_cases daily_reset_fields test_mode_reset_fields
      polls_def read_tenant_data_consecutive)

text \<open>
  What the restart does. With the threshold 10, a turn of the loop whose readings
  are due restarts the handler exactly when one of the two counts is at least 10.
  The restart closes the handler, sets both counts to 0 and tries to build a handler
  up to three times, waiting 2 s after the first failure and 4 s after the second.
  When an attempt succeeds the monitor keeps running with a handler and the turn
  polls both meters; when all three fail, \<open>running\<close> is false, the loop is left, and a
  monitor that is not running never changes again.
\<close>

lemma restart_mechanics:
  "consecutive_errors (snd (record_read t res m)) t =
       (if snd (fst (record_read t res m)) = Success then 0 else consecutive_errors m t + 1)
   \<and> consecutive_errors (snd (read_tenant_data t p m)) t =
       (if snd (fst (read_tenant_data t p m)) = Success then 0 else consecutive_errors m t + 1)
   \<and> (max_consecutive_errors m = 10 \<longrightarrow>
        (Restarting \<in> set (snd (snd (cycle e m))) \<longleftrightarrow>
           current_time e - last_reading m \<ge> SENSOR_READ_INTERVAL
           \<and> (consecutive_errors m TenantA \<ge> 10 \<or> consecutive_errors m TenantB \<ge> 10)))
   \<and> consecutive_errors (fst (restart_pzem_handler atts m)) TenantA = 0
   \<and> consecutive_errors (fst (restart_pzem_handler atts m)) TenantB = 0
   \<and> (atts 0 \<noteq> CtorRaised \<longrightarrow>
        snd (restart_pzem_handler atts m) = Restarting # close_handler m
        \<and> running (fst (restart_pzem_handler atts m)) = running m
        \<and> pzem (fst (restart_pzem_handler atts m)) \<noteq> None)
   \<and> (atts 0 = CtorRaised \<and> atts 1 \<noteq> CtorRaised \<longrightarrow>
        snd (restart_pzem_handler atts m) =
          Restarting # close_handler m @ close_handler m @ [Sleep 2]
        \<and> running (fst (restart_pzem_handler atts m)) = running m
        \<and> pzem (fst (restart_pzem_handler atts m)) \<noteq> None)
   \<and> (atts 0 = CtorRaised \<and> atts 1 = CtorRaised \<and> atts 2 \<noteq> CtorRaised \<longrightarrow>
        snd (restart_pzem_handler atts m) =
          Restarting # close_handler m @ close_handler m @ [Sleep 2, Sleep 4]
        \<and> running (fst (restart_pzem_handler atts m)) = running m
        \<and> pzem (fst (restart_pzem_handler atts m)) \<noteq> None)
   \<and> (atts 0 = CtorRaised \<and> atts 1 = CtorRaised \<and> atts 2 = CtorRaised \<longrightarrow>
        snd (restart_pzem_handler atts m) =
          Restarting # close_handler m @ close_handler m @ [Sleep 2, Sleep 4, InitFailed]
        \<and> \<not> running (fst (restart_pzem_handler atts m)))
   \<and> (running m \<and> max_consecutive_errors m = 10
        \<and> current_time e - last_reading m \<ge> SENSOR_READ_INTERVAL
        \<and> (consecutive_errors m TenantA \<ge> 10 \<or> consecutive_errors m TenantB \<ge> 10)
        \<and> \<not> (inits e 0 = CtorRaised \<and> inits e 1 = CtorRaised \<and> inits e 2 = CtorRaised) \<longrightarrow>
        fst (cycle e m) = Continue \<and> running (fst (snd (cycle e m)))
        \<and> last_reading (fst (snd (cycle e m))) = current_time e)
   \<and> (max_consecutive_errors m = 10
        \<and> current_time e - last_reading m \<ge> SENSOR_READ_INTERVAL
        \<and> (consecutive_errors m TenantA \<ge> 10 \<or> consecutive_errors m TenantB \<ge> 10)
        \<and> inits e 0 = CtorRaised \<and> inits e 1 = CtorRaised \<and> inits e 2 = CtorRaised \<longrightarrow>
        fst (cycle e m) = LoopBreak \<and> \<not> running (fst (snd (cycle e m)))
        \<and> snd (snd (cycle e m)) =
            Restarting # close_handler m @ close_handler m @ [Sleep 2, Sleep 4, InitFailed])
   \<and> (\<not> running m \<longrightarrow>
        fst (snd (run_cycles es m)) = m \<and> snd (snd (run_cycles es m)) = [])"
proof -
  let ?m1 = "m\<lparr>read_count := read_count m + 1\<rparr>"
  have s1: "consecutive_errors (snd (record_read t res m)) t =
       (if snd (fst (record_read t res m)) = Success then 0 else consecutive_errors m t + 1)"
    by (simp add: record_read_consecutive)
  have s2: "consecutive_errors (snd (read_tenant_data t p m)) t =
       (if snd (fst (read_tenant_data t p m)) = Success then 0 else consecutive_errors m t + 1)"
    by (simp add: read_tenant_data_consecutive)
  have trig: "max_consecutive_errors m = 10 \<longrightarrow>
        (Restarting \<in> set (snd (snd (cycle e m))) \<longleftrightarrow>
           current_time e - last_reading m \<ge> SENSOR_READ_INTERVAL
           \<and> (consecutive_errors m TenantA \<ge> 10 \<or> consecutive_errors m TenantB \<ge> 10))"
    by (simp add: cycle_restarting due_def restart_needed_def SENSOR_READ_INTERVAL_def)
  note ro = restart_outcomes [of atts m]
  have resume: "running m \<and> max_consecutive_errors m = 10
        \<and> current_time e - last_reading m \<ge> SENSOR_READ_INTERVAL
        \<and> (consecutive_errors m TenantA \<ge> 10 \<or> consecutive_errors m TenantB \<ge> 10)
        \<and> \<not> (inits e 0 = CtorRaised \<and> inits e 1 = CtorRaised \<and> inits e 2 = CtorRaised) \<longrightarrow>
        fst (cycle e m) = Continue \<and> running (fst (snd (cycle e m)))
        \<and> last_reading (fst (snd (cycle e m))) = current_time e"
  proof
    assume a: "running m \<and> max_consecutive_errors m = 10
        \<and> current_time e - last_reading m \<ge> SENSOR_READ_INTERVAL
        \<and> (consecutive_errors m TenantA \<ge> 10 \<or> consecutive_errors m TenantB \<ge> 10)
        \<and> \<not> (inits e 0 = CtorRaised \<and> inits e 1 = CtorRaised \<and> inits e 2 = CtorRaised)"
    then have d: "due e m" and n: "restart_needed m"
      by (simp_all add: due_def restart_needed_def SENSOR_READ_INTERVAL_def)
    have "running (fst (restart_pzem_handler (inits e) ?m1))"
      using a restart_outcomes [of "inits e" ?m1] by auto
    then show "fst (cycle e m) = Continue \<and> running (fst (snd (cycle e m)))
        \<and> last_reading (fst (snd (cycle e m))) = current_time e"
      using cycle_after_restart(2) [OF d n] by simp
  qed
  have halt: "max_consecutive_errors m = 10
        \<and> current_time e - last_reading m \<ge> SENSOR_READ_INTERVAL
        \<and> (consecutive_errors m TenantA \<ge> 10 \<or> consecutive_errors m TenantB \<ge> 10)
        \<and> inits e 0 = CtorRaised \<and> inits e 1 = CtorRaised \<and> inits e 2 = CtorRaised \<longrightarrow>
        fst (cycle e m) = LoopBreak \<and> \<not> running (fst (snd (cycle e m)))
        \<and> snd (snd (cycle e m)) =
            Restarting # close_handler m @ close_handler m @ [Sleep 2, Sleep 4, InitFailed]"
  proof
    assume a: "max_consecutive_errors m = 10
        \<and> current_time e - last_reading m \<ge> SENSOR_READ_INTERVAL
        \<and> (consecutive_errors m TenantA \<ge> 10 \<or> consecutive_errors m TenantB \<ge> 10)
        \<and> inits e 0 = CtorRaised \<and> inits e 1 = CtorRaised \<and> inits e 2 = CtorRaised"
    then have d: "due e m" and n: "restart_needed m"
      by (simp_all add: due_def restart_needed_def SENSOR_READ_INTERVAL_def)
    have r: "\<not> running (fst (restart_pzem_handler (inits e) ?m1))"
      "snd (restart_pzem_handler (inits e) ?m1) =
         Restarting # close_handler m @ close_handler m @ [Sleep 2, Sleep 4, InitFailed]"
      using a restart_outcomes [of "inits e" ?m1] by (simp_all add: close_handler_events)
    have "snd (snd (cycle e m)) =
        Restarting # close_handler m @ close_handler m @ [Sleep 2, Sleep 4, InitFailed]"
      using d n r by (simp add: cycle_cases readings_cases)
    then show "fst (cycle e m) = LoopBreak \<and> \<not> running (fst (snd (cycle e m)))
        \<and> snd (snd (cycle e m)) =
            Restarting # close_handler m @ close_handler m @ [Sleep 2, Sleep 4, InitFailed]"
      using cycle_after_restart(1) [OF d n] r(1) by simp
  qed
  have stop: "\<not> running m \<longrightarrow>
        fst (snd (run_cycles es m)) = m \<and> snd (snd (run_cycles es m)) = []"
    using run_cycles_stopped [of m es] by simp
  from s1 s2 trig ro resume halt stop show ?thesis
    by (simp del: not_None_eq)
qed

lemma restart_at_ten_not_at_nine:
  "fst (cycle (window_tick 86460) tenth_failure_monitor) = LoopBreak
   \<and> \<not> running (fst (snd (cycle (window_tick 86460) tenth_failure_monitor)))
   \<and> snd (snd (cycle (window_tick 86460) tenth_failure_monitor))
       = [Restarting, ChannelsClosed, ChannelsClosed, Sleep 2, Sleep 4, InitFailed]
   \<and> Restarting \<notin> set (snd (snd (cycle (window_tick 86460) ninth_failure_monitor)))"
  by code_simp

subsection \<open>How a failed poll is recorded\<close>

lemma validate_zero_data: "validate_data (Some (zero_data e d now)) t = Valid"
  by (simp add: validate_data_def zero_data_def)

text \<open>
  \<open>read_tenant_a\<close> and \<open>read_tenant_b\<close> answer a missing or rejected frame, and an
  exception of the UART, with the dictionary of zeros, which passes
  \<open>_validate_data\<close>: \<open>_read_tenant_data\<close> records such a poll as a success and sets the
  count of consecutive errors to 0. With a handler in place no poll is recorded as
  a timeout or an error.
\<close>

lemma failed_poll_recorded_success:
  "(pzem m = Some h
      \<and> (rx p = UartError
          \<or> (\<exists>bs e. rx p = Collected bs \<and> read_response bs (address_a h) (stamp p) = Inl e))
      \<longrightarrow> snd (fst (read_tenant_data TenantA p m)) = Success
          \<and> consecutive_errors (snd (read_tenant_data TenantA p m)) TenantA = 0)
   \<and> (pzem m = Some h
      \<and> (rx p = UartError
          \<or> (\<exists>bs e. rx p = Collected bs \<and> read_response bs (address_b h) (stamp p) = Inl e))
      \<longrightarrow> snd (fst (read_tenant_data TenantB p m)) = Success
          \<and> consecutive_errors (snd (read_tenant_data TenantB p m)) TenantB = 0)
   \<and> (pzem m = Some h \<longrightarrow>
        snd (fst (read_tenant_data t p m)) = Success
        \<or> snd (fst (read_tenant_data t p m)) = InvalidData)"
proof (intro conjI impI)
  assume a: "pzem m = Some h
      \<and> (rx p = UartError
          \<or> (\<exists>bs e. rx p = Collected bs \<and> read_response bs (address_a h) (stamp p) = Inl e))"
  then have pz: "pzem m = Some h" by simp
  have f: "read_tenant_a h p = (zero_data (energy_a h) (daily_energy_a h) (clock p), h)"
    using a by (intro read_tenant_a_failure) simp
  show o: "snd (fst (read_tenant_data TenantA p m)) = Success"
    using read_tenant_data_handler [OF pz, of TenantA p] f by (simp add: validate_zero_data)
  show "consecutive_errors (snd (read_tenant_data TenantA p m)) TenantA = 0"
    using o by (simp add: read_tenant_data_consecutive)
next
  assume b: "pzem m = Some h
      \<and> (rx p = UartError
          \<or> (\<exists>bs e. rx p = Collected bs \<and> read_response bs (address_b h) (stamp p) = Inl e))"
  then have pz: "pzem m = Some h" by simp
  have f: "read_tenant_b h p = (zero_data (energy_b h) (daily_energy_b h) (clock p), h)"
    using b by (intro read_tenant_b_failure) simp
  show o: "snd (fst (read_tenant_data TenantB p m)) = Success"
    using read_tenant_data_handler [OF pz, of TenantB p] f by (simp add: validate_zero_data)
  show "consecutive_errors (snd (read_tenant_data TenantB p m)) TenantB = 0"
    using o by (simp add: read_tenant_data_consecutive)
next
  assume pz: "pzem m = Some h"
  show "snd (fst (read_tenant_data t p m)) = Success
        \<or> snd (fst (read_tenant_data t p m)) = InvalidData"
    using read_tenant_data_handler [OF pz, of t p] by simp
qed

text \<open>
  Claim C3. The claim says that each timeout, error or invalid outcome of a poll
  adds 1 to the meter's count of consecutive failures, that a success sets it to 0,
  and that the count reaching 10 restarts the handler. The code does not do this
  for a meter that does not answer. A poll that collects no bytes, on a monitor
  whose meter A has failed nine times in a row, is recorded as a success and sets
  the count to 0. In twelve turns of the loop during which neither meter sends a
  byte, every poll is recorded as a success, no timeout and no error is counted,
  both counts stay 0 and the handler is never restarted.
\<close>

theorem silent_meter_recorded_success:
  "snd (fst (read_tenant_data TenantA (poll_of [] 50) ninth_failure_monitor)) = Success
   \<and> consecutive_errors ninth_failure_monitor TenantA = 9
   \<and> consecutive_errors
        (snd (read_tenant_data TenantA (poll_of [] 50) ninth_failure_monitor)) TenantA = 0
   \<and> length silent_ticks = 12
   \<and> fst (run_cycles silent_ticks started_monitor) = Continue
   \<and> Restarting \<notin> set (snd (snd (run_cycles silent_ticks started_monitor)))
   \<and> consecutive_errors (fst (snd (run_cycles silent_ticks started_monitor))) TenantA = 0
   \<and> consecutive_errors (fst (snd (run_cycles silent_ticks started_monitor))) TenantB = 0
   \<and> success (stats (fst (snd (run_cycles silent_ticks started_monitor))) TenantA) = 12
   \<and> timeout (stats (fst (snd (run_cycles silent_ticks started_monitor))) TenantA) = 0
   \<and> error (stats (fst (snd (run_cycles silent_ticks started_monitor))) TenantA) = 0
   \<and> invalid (stats (fst (snd (run_cycles silent_ticks started_monitor))) TenantA) = 0"
  by code_simp

end
